theory Spec2Isabelle
  imports Complex_Main "HOL-Library.Log_Nat" "HOL-Library.Product_Lexorder"
begin

section \<open>JavaScript numbers\<close>

text \<open>
  The file server.js holds two variants of the same Express/Mongoose service. Both are
  embedded here; definitions ending in 1 belong to the first variant (lines 1-161),
  those ending in 2 to the second (lines 162-314).

  A JavaScript number is an IEEE 754 binary64 value. A finite one is represented by the
  real number it denotes (the two zeros are one value, which no expression of the
  handlers can tell apart); \<open>jsnum\<close> adds \<open>NaN\<close> as \<open>None\<close>.
\<close>

datatype xreal = NegInf | Fin real | PosInf

instantiation xreal :: linorder
begin

fun less_eq_xreal :: "xreal \<Rightarrow> xreal \<Rightarrow> bool" where
  "less_eq_xreal NegInf y = True"
| "less_eq_xreal (Fin a) NegInf = False"
| "less_eq_xreal (Fin a) (Fin b) = (a \<le> b)"
| "less_eq_xreal (Fin a) PosInf = True"
| "less_eq_xreal PosInf NegInf = False"
| "less_eq_xreal PosInf (Fin b) = False"
| "less_eq_xreal PosInf PosInf = True"

definition less_xreal :: "xreal \<Rightarrow> xreal \<Rightarrow> bool" where
  "less_xreal x y \<longleftrightarrow> x \<le> y \<and> \<not> y \<le> x"

instance
proof
  fix x y z :: xreal
  show "(x < y) = (x \<le> y \<and> \<not> y \<le> x)" by (simp add: less_xreal_def)
  show "x \<le> x" by (cases x) simp_all
  show "x \<le> y \<Longrightarrow> y \<le> z \<Longrightarrow> x \<le> z" by (cases x; cases y; cases z) simp_all
  show "x \<le> y \<Longrightarrow> y \<le> x \<Longrightarrow> x = y" by (cases x; cases y) simp_all
  show "x \<le> y \<or> y \<le> x" by (cases x; cases y) auto
qed

end

instantiation xreal :: uminus
begin

fun uminus_xreal :: "xreal \<Rightarrow> xreal" where
  "uminus_xreal NegInf = PosInf"
| "uminus_xreal (Fin a) = Fin (- a)"
| "uminus_xreal PosInf = NegInf"

instance ..

end

type_synonym jsnum = "xreal option"

text \<open>
  Every arithmetic operation of the language computes the exact result and rounds it to
  the nearest binary64 value, ties to the one with an even significand.
  \<open>round_even\<close> is that rounding on multiples of the spacing; \<open>quantum x\<close> is the
  spacing of the binary64 values around \<open>x\<close>: \<open>2 ^ (e - 52)\<close> for
  \<open>2 ^ e \<le> \<bar>x\<bar> < 2 ^ (e + 1)\<close>, and \<open>2 ^ - 1074\<close> below \<open>2 ^ - 1022\<close>. A result of
  magnitude \<open>2 ^ 1024 - 2 ^ 970\<close> or more rounds to an infinity.
\<close>

definition round_even :: "real \<Rightarrow> int" where
  "round_even y =
     (let n = \<lfloor>y\<rfloor>; d = y - of_int n
      in if d < 1/2 then n else if 1/2 < d then n + 1 else if even n then n else n + 1)"

definition denormScale :: real where
  "denormScale = 2 ^ 1074"

definition overflowThreshold :: real where
  "overflowThreshold = 2 ^ 1024 - 2 ^ 970"

definition quantum :: "real \<Rightarrow> real" where
  "quantum x = 2 ^ nat (bitlen \<lfloor>\<bar>x\<bar> * denormScale\<rfloor> - 53) / denormScale"

definition round64 :: "real \<Rightarrow> xreal" where
  "round64 x =
     (if overflowThreshold \<le> \<bar>x\<bar> then (if 0 < x then PosInf else NegInf)
      else Fin (of_int (round_even (x / quantum x)) * quantum x))"

text \<open>The operators \<open>-\<close> and \<open>*\<close> on numbers.\<close>

fun js_sub :: "jsnum \<Rightarrow> jsnum \<Rightarrow> jsnum" where
  "js_sub (Some (Fin a)) (Some (Fin b)) = Some (round64 (a - b))"
| "js_sub (Some (Fin a)) (Some PosInf) = Some NegInf"
| "js_sub (Some (Fin a)) (Some NegInf) = Some PosInf"
| "js_sub (Some PosInf) (Some PosInf) = None"
| "js_sub (Some PosInf) (Some y) = Some PosInf"
| "js_sub (Some NegInf) (Some NegInf) = None"
| "js_sub (Some NegInf) (Some y) = Some NegInf"
| "js_sub x y = None"

fun js_mul :: "jsnum \<Rightarrow> jsnum \<Rightarrow> jsnum" where
  "js_mul (Some (Fin a)) (Some (Fin b)) = Some (round64 (a * b))"
| "js_mul (Some (Fin a)) (Some PosInf) =
     (if a = 0 then None else Some (if 0 < a then PosInf else NegInf))"
| "js_mul (Some (Fin a)) (Some NegInf) =
     (if a = 0 then None else Some (if 0 < a then NegInf else PosInf))"
| "js_mul (Some PosInf) (Some (Fin b)) =
     (if b = 0 then None else Some (if 0 < b then PosInf else NegInf))"
| "js_mul (Some NegInf) (Some (Fin b)) =
     (if b = 0 then None else Some (if 0 < b then NegInf else PosInf))"
| "js_mul (Some PosInf) (Some PosInf) = Some PosInf"
| "js_mul (Some PosInf) (Some NegInf) = Some NegInf"
| "js_mul (Some NegInf) (Some PosInf) = Some NegInf"
| "js_mul (Some NegInf) (Some NegInf) = Some PosInf"
| "js_mul x y = None"

text \<open>
  \<open>/\<close> and \<open>%\<close> by a positive finite constant, the only divisors in the source. The
  remainder is that of the truncated quotient and is exact.
\<close>

fun js_div :: "jsnum \<Rightarrow> real \<Rightarrow> jsnum" where
  "js_div (Some (Fin a)) d = Some (round64 (a / d))"
| "js_div (Some PosInf) d = Some PosInf"
| "js_div (Some NegInf) d = Some NegInf"
| "js_div None d = None"

fun js_rem :: "jsnum \<Rightarrow> real \<Rightarrow> jsnum" where
  "js_rem (Some (Fin a)) d =
     Some (Fin (a - d * real_of_int (if 0 \<le> a / d then \<lfloor>a / d\<rfloor> else \<lceil>a / d\<rceil>)))"
| "js_rem x d = None"

text \<open>\<open>Math.floor\<close> and \<open>Math.max\<close>; both are exact, and \<open>NaN\<close> goes through them.\<close>

fun Math_floor :: "jsnum \<Rightarrow> jsnum" where
  "Math_floor (Some (Fin a)) = Some (Fin (real_of_int \<lfloor>a\<rfloor>))"
| "Math_floor x = x"

fun Math_max :: "jsnum \<Rightarrow> jsnum \<Rightarrow> jsnum" where
  "Math_max (Some x) (Some y) = Some (max x y)"
| "Math_max x y = None"

section \<open>JavaScript values as the handlers of server.js see them\<close>

text \<open>
  A JavaScript string is its sequence of UTF-16 code units, which is what \<open>length\<close>,
  \<open>trim\<close> and Mongoose's \<open>maxlength\<close> count.
\<close>

type_synonym jsstring = "nat list"

text \<open>
  A value of a parsed JSON request body. \<open>JUndefined\<close> is an absent key. An array is
  represented by the one thing the handlers observe of it, the result of \<open>ToNumber\<close>;
  a plain object by its \<open>_id\<close> property (\<open>None\<close> when it has none), the only property
  Mongoose's casters look at.
\<close>

datatype jsval =
    JUndefined
  | JNull
  | JBool bool
  | JNum xreal
  | JStr jsstring
  | JArray jsnum
  | JObject "jsval option"

text \<open>
  The two conversions of the language between strings and numbers are builtins of the
  JavaScript engine and not code of the repository; they are parameters of the model.
\<close>

record builtins =
  StringToNumber :: "jsstring \<Rightarrow> jsnum"
  NumberToString :: "jsnum \<Rightarrow> jsstring"

definition utf16 :: "string \<Rightarrow> jsstring" where
  "utf16 s = map of_char s"

fun truthy :: "jsval \<Rightarrow> bool" where
  "truthy JUndefined = False"
| "truthy JNull = False"
| "truthy (JBool b) = b"
| "truthy (JNum r) = (r \<noteq> Fin 0)"
| "truthy (JStr s) = (s \<noteq> [])"
| "truthy (JArray n) = True"
| "truthy (JObject i) = True"

fun ToNumber :: "builtins \<Rightarrow> jsval \<Rightarrow> jsnum" where
  "ToNumber B JUndefined = None"
| "ToNumber B JNull = Some (Fin 0)"
| "ToNumber B (JBool b) = Some (Fin (if b then 1 else 0))"
| "ToNumber B (JNum r) = Some r"
| "ToNumber B (JStr s) = StringToNumber B s"
| "ToNumber B (JArray n) = n"
| "ToNumber B (JObject i) = None"

section \<open>Score computation\<close>

text \<open>
  Variant 1, line 94: \<open>Math.max(0, Math.floor((600 - timeTaken) * 1.5))\<close>, on the number
  the subtraction converts \<open>timeTaken\<close> to.
\<close>

definition score1 :: "jsnum \<Rightarrow> jsnum" where
  "score1 t =
     Math_max (Some (Fin 0)) (Math_floor (js_mul (js_sub (Some (Fin 600)) t) (Some (Fin 1.5))))"

text \<open>
  Variant 2, line 233, the pre-save hook: \<open>Math.floor((600 - this.timeTaken) * 1.5)\<close>.
\<close>

definition score2 :: "jsnum \<Rightarrow> jsnum" where
  "score2 t = Math_floor (js_mul (js_sub (Some (Fin 600)) t) (Some (Fin 1.5)))"

text \<open>Line 94 on an arbitrary body value: the subtraction converts with \<open>ToNumber\<close>.\<close>

definition computeScore1 :: "builtins \<Rightarrow> jsval \<Rightarrow> jsnum" where
  "computeScore1 B v = score1 (ToNumber B v)"

section \<open>Mongoose schema types: casting, setters, validators\<close>

text \<open>
  What the library does for the schema options the two schemas declare
  (\<open>type\<close>, \<open>required\<close>, \<open>trim\<close>, \<open>maxlength\<close>, \<open>min\<close>, \<open>max\<close>). A value assigned to a
  path is cast to the path's type: the cast fails, yields null, or yields a value.
\<close>

datatype 'a cast = CastError | CastNull | Cast 'a

text \<open>
  \<open>type: Number\<close>. The library's \<open>castNumber\<close>: null and the empty string cast to null;
  strings and booleans go through \<open>Number(val)\<close> and fail on \<open>NaN\<close>; arrays and plain
  objects fail.
\<close>

fun castNumberPlain :: "builtins \<Rightarrow> jsval \<Rightarrow> xreal cast" where
  "castNumberPlain B JUndefined = CastNull"
| "castNumberPlain B JNull = CastNull"
| "castNumberPlain B (JBool b) = Cast (Fin (if b then 1 else 0))"
| "castNumberPlain B (JNum r) = Cast r"
| "castNumberPlain B (JStr s) =
     (if s = [] then CastNull
      else case StringToNumber B s of None \<Rightarrow> CastError | Some r \<Rightarrow> Cast r)"
| "castNumberPlain B (JArray n) = CastError"
| "castNumberPlain B (JObject i) = CastError"

text \<open>
  The cast of a Number path: a value that has an \<open>_id\<close> property is replaced by that
  property first (\<open>value && typeof value._id !== 'undefined' ? value._id : value\<close>), then
  \<open>castNumber\<close> is applied.
\<close>

fun castNumber :: "builtins \<Rightarrow> jsval \<Rightarrow> xreal cast" where
  "castNumber B (JObject None) = CastError"
| "castNumber B (JObject (Some JUndefined)) = CastError"
| "castNumber B (JObject (Some v)) = castNumberPlain B v"
| "castNumber B v = castNumberPlain B v"

text \<open>The same cast on a value that is already a number or \<open>NaN\<close> (the computed score).\<close>

definition castNum :: "jsnum \<Rightarrow> xreal cast" where
  "castNum n = (case n of None \<Rightarrow> CastError | Some r \<Rightarrow> Cast r)"

text \<open>
  \<open>type: String\<close>. Null stays null; an object with a non-empty string \<open>_id\<close> casts to
  it; numbers and booleans cast through \<open>toString()\<close>; arrays and other plain objects
  fail.
\<close>

fun castString :: "builtins \<Rightarrow> jsval \<Rightarrow> jsstring cast" where
  "castString B JUndefined = CastNull"
| "castString B JNull = CastNull"
| "castString B (JBool b) = Cast (utf16 (if b then ''true'' else ''false''))"
| "castString B (JNum r) = Cast (NumberToString B (Some r))"
| "castString B (JStr s) = Cast s"
| "castString B (JArray n) = CastError"
| "castString B (JObject i) =
     (case i of Some (JStr s) \<Rightarrow> if s = [] then CastError else Cast s | _ \<Rightarrow> CastError)"

text \<open>
  \<open>String.prototype.trim\<close>: the code units of WhiteSpace and LineTerminator are removed
  from both ends.
\<close>

definition js_whitespace :: "nat \<Rightarrow> bool" where
  "js_whitespace c \<longleftrightarrow>
     c \<in> set [9, 10, 11, 12, 13, 32, 160, 5760, 8232, 8233, 8239, 8287, 12288, 65279]
     \<or> (8192 \<le> c \<and> c \<le> 8202)"

definition js_trim :: "jsstring \<Rightarrow> jsstring" where
  "js_trim s = rev (dropWhile js_whitespace (rev (dropWhile js_whitespace s)))"

text \<open>The \<open>trim: true\<close> setter, applied to the cast value.\<close>

definition trimSetter :: "jsstring cast \<Rightarrow> jsstring cast" where
  "trimSetter c = (case c of Cast s \<Rightarrow> Cast (js_trim s) | _ \<Rightarrow> c)"

text \<open>
  Validation errors, by path. A path whose cast failed reports the cast error; the
  \<open>required\<close> validator of a string path rejects null and the empty string, that of a
  number path rejects null; \<open>maxlength\<close>, \<open>min\<close> and \<open>max\<close> accept null.
\<close>

datatype verr =
    CastFailed string
  | Required string
  | MaxLength string
  | Min string
  | Max string

definition requiredString :: "string \<Rightarrow> jsstring cast \<Rightarrow> verr list" where
  "requiredString p c =
     (case c of CastError \<Rightarrow> [CastFailed p]
      | CastNull \<Rightarrow> [Required p]
      | Cast s \<Rightarrow> if s = [] then [Required p] else [])"

definition optionalString :: "string \<Rightarrow> jsstring cast \<Rightarrow> verr list" where
  "optionalString p c = (case c of CastError \<Rightarrow> [CastFailed p] | _ \<Rightarrow> [])"

definition requiredNumber :: "string \<Rightarrow> xreal cast \<Rightarrow> verr list" where
  "requiredNumber p c =
     (case c of CastError \<Rightarrow> [CastFailed p] | CastNull \<Rightarrow> [Required p] | Cast r \<Rightarrow> [])"

definition maxlength :: "string \<Rightarrow> nat \<Rightarrow> jsstring cast \<Rightarrow> verr list" where
  "maxlength p n c = (case c of Cast s \<Rightarrow> if length s \<le> n then [] else [MaxLength p] | _ \<Rightarrow> [])"

definition minNumber :: "string \<Rightarrow> xreal \<Rightarrow> xreal cast \<Rightarrow> verr list" where
  "minNumber p m c = (case c of Cast r \<Rightarrow> if m \<le> r then [] else [Min p] | _ \<Rightarrow> [])"

definition maxNumber :: "string \<Rightarrow> xreal \<Rightarrow> xreal cast \<Rightarrow> verr list" where
  "maxNumber p m c = (case c of Cast r \<Rightarrow> if r \<le> m then [] else [Max p] | _ \<Rightarrow> [])"

definition castValue :: "'a \<Rightarrow> 'a cast \<Rightarrow> 'a" where
  "castValue d c = (case c of Cast x \<Rightarrow> x | _ \<Rightarrow> d)"

definition castOption :: "'a cast \<Rightarrow> 'a option" where
  "castOption c = (case c of Cast x \<Rightarrow> Some x | _ \<Rightarrow> None)"

section \<open>Stored records, requests, responses\<close>

text \<open>
  A stored Player document. \<open>email\<close> exists only in the schema of variant 1; both
  schemas set \<open>timestamps: true\<close>.
\<close>

record player =
  pid :: nat
  name :: jsstring
  department :: jsstring
  email :: "jsstring option"
  timeTaken :: xreal
  score :: xreal
  createdAt :: nat
  updatedAt :: nat

text \<open>
  The request body \<open>req.body\<close>, by the keys the handlers read, and a \<open>score\<close> key a
  client may send along.
\<close>

record body =
  b_name :: jsval
  b_department :: jsval
  b_email :: jsval
  b_timeTaken :: jsval
  b_score :: jsval

text \<open>
  What the storage collaborator contributes to one request: whether the operation
  reaches the database, the identifier it assigns and the clock.
\<close>

record env =
  storageOk :: bool
  newId :: nat
  now :: nat

datatype save_error = ValidationFailed "verr list" | StorageFailed

text \<open>An entry of the leaderboard response; \<open>timeFormatted\<close> exists only in variant 2.\<close>

record ranked =
  entry :: player
  rank :: nat
  timeFormatted :: "jsstring option"

text \<open>The \<open>data\<close> object variant 2 builds for its 201 response (lines 257-264).\<close>

record created2 =
  c_id :: nat
  c_name :: jsstring
  c_department :: jsstring
  c_timeTaken :: xreal
  c_score :: xreal
  c_createdAt :: nat

datatype payload =
    Doc player
  | View created2
  | Board "ranked list"
  | ErrorText string
  | ErrorOf save_error

record response =
  status :: nat
  success :: bool
  payload :: payload

section \<open>POST /api/players\<close>

text \<open>
  Variant 1 (lines 55-62): every path is cast to its type; \<open>name\<close>, \<open>department\<close>,
  \<open>timeTaken\<close> and \<open>score\<close> are required, \<open>email\<close> is optional. The schema declares no
  \<open>trim\<close>, no \<open>maxlength\<close>, no \<open>min\<close> and no \<open>max\<close>.
\<close>

definition validate1 :: "builtins \<Rightarrow> body \<Rightarrow> jsnum \<Rightarrow> verr list" where
  "validate1 B b sc =
     requiredString ''name'' (castString B (b_name b))
     @ requiredString ''department'' (castString B (b_department b))
     @ optionalString ''email'' (castString B (b_email b))
     @ requiredNumber ''timeTaken'' (castNumber B (b_timeTaken b))
     @ requiredNumber ''score'' (castNum sc)"

text \<open>
  Lines 95-96: \<open>new Player({ name, department, email, timeTaken, score })\<close> and
  \<open>player.save()\<close>, which validates and then inserts. It throws on a validation error
  and when the insert does not reach the database.
\<close>

definition save1 :: "builtins \<Rightarrow> env \<Rightarrow> body \<Rightarrow> jsnum \<Rightarrow> save_error + player" where
  "save1 B e b sc =
     (let errs = validate1 B b sc in
      if errs \<noteq> [] then Inl (ValidationFailed errs)
      else if \<not> storageOk e then Inl StorageFailed
      else Inr \<lparr>pid = newId e,
                name = castValue [] (castString B (b_name b)),
                department = castValue [] (castString B (b_department b)),
                email = castOption (castString B (b_email b)),
                timeTaken = castValue (Fin 0) (castNumber B (b_timeTaken b)),
                score = castValue (Fin 0) (castNum sc),
                createdAt = now e,
                updatedAt = now e\<rparr>)"

text \<open>
  The handler of lines 83-109. The result is the response and the collection after the
  request. In the 500 response \<open>ErrorOf err\<close> stands for \<open>error.message\<close>.
\<close>

definition submit1 :: "builtins \<Rightarrow> env \<Rightarrow> player list \<Rightarrow> body \<Rightarrow> response \<times> player list" where
  "submit1 B e db b =
     (if \<not> truthy (b_name b) \<or> \<not> truthy (b_department b) \<or> b_timeTaken b = JUndefined then
        (\<lparr>status = 400, success = False,
          payload = ErrorText ''Missing required fields: name, department or timeTaken''\<rparr>, db)
      else
        let sc = computeScore1 B (b_timeTaken b) in
        case save1 B e b sc of
          Inl err \<Rightarrow> (\<lparr>status = 500, success = False, payload = ErrorOf err\<rparr>, db)
        | Inr p \<Rightarrow> (\<lparr>status = 201, success = True, payload = Doc p\<rparr>, db @ [p]))"

text \<open>
  Variant 2 (lines 204-229): \<open>name\<close> and \<open>department\<close> are required, trimmed and at most
  50 code units long; \<open>timeTaken\<close> is required and between 0 and 600.
\<close>

definition validate2 :: "builtins \<Rightarrow> body \<Rightarrow> verr list" where
  "validate2 B b =
     (let n = trimSetter (castString B (b_name b));
          d = trimSetter (castString B (b_department b));
          t = castNumber B (b_timeTaken b)
      in requiredString ''name'' n @ maxlength ''name'' 50 n
         @ requiredString ''department'' d @ maxlength ''department'' 50 d
         @ requiredNumber ''timeTaken'' t @ minNumber ''timeTaken'' (Fin 0) t
         @ maxNumber ''timeTaken'' (Fin 600) t)"

text \<open>
  Lines 252-253 with the hook of lines 232-235: \<open>new Player({ name, department,
  timeTaken })\<close> and \<open>player.save()\<close>. Validation is the first pre-save step of the
  library; the schema's own pre-save hook, which assigns \<open>score\<close>, runs after it and
  before the insert. The assignment casts the value to the Number path; validation has
  bounded \<open>timeTaken\<close> to [0, 600] by then, where the hook's value is a number, so the
  cast never fails there (lemma \<open>score2_in_budget\<close>).
\<close>

definition save2 :: "builtins \<Rightarrow> env \<Rightarrow> body \<Rightarrow> save_error + player" where
  "save2 B e b =
     (let errs = validate2 B b in
      if errs \<noteq> [] then Inl (ValidationFailed errs)
      else
        let t = castValue (Fin 0) (castNumber B (b_timeTaken b)) in
        case castNum (score2 (Some t)) of
          Cast s \<Rightarrow>
            if \<not> storageOk e then Inl StorageFailed
            else Inr \<lparr>pid = newId e,
                      name = castValue [] (trimSetter (castString B (b_name b))),
                      department = castValue [] (trimSetter (castString B (b_department b))),
                      email = None,
                      timeTaken = t,
                      score = s,
                      createdAt = now e,
                      updatedAt = now e\<rparr>
        | _ \<Rightarrow> Inl (ValidationFailed [CastFailed ''score'']))"

text \<open>The handler of lines 240-273.\<close>

definition submit2 :: "builtins \<Rightarrow> env \<Rightarrow> player list \<Rightarrow> body \<Rightarrow> response \<times> player list" where
  "submit2 B e db b =
     (if \<not> truthy (b_name b) \<or> \<not> truthy (b_department b) \<or> b_timeTaken b = JUndefined then
        (\<lparr>status = 400, success = False, payload = ErrorText ''Missing required fields''\<rparr>, db)
      else
        case save2 B e b of
          Inl err \<Rightarrow>
            (\<lparr>status = 500, success = False, payload = ErrorText ''Failed to save player data''\<rparr>, db)
        | Inr p \<Rightarrow>
            (\<lparr>status = 201, success = True,
              payload = View \<lparr>c_id = pid p, c_name = name p, c_department = department p,
                              c_timeTaken = timeTaken p, c_score = score p,
                              c_createdAt = createdAt p\<rparr>\<rparr>,
             db @ [p]))"

section \<open>GET /api/leaderboard\<close>

text \<open>
  \<open>Player.find().sort({ score: -1, timeTaken: 1 }).limit(50)\<close>: the collection ordered
  by score descending, then timeTaken ascending, cut to 50. Records equal in both keys
  keep the order of the collection here; the database promises no order among them.
\<close>

definition sortKey :: "player \<Rightarrow> xreal \<times> xreal" where
  "sortKey p = (- score p, timeTaken p)"

definition findSortedLimited :: "player list \<Rightarrow> player list" where
  "findSortedLimited db = take 50 (sort_key sortKey db)"

text \<open>Lines 119-122: \<open>players.map((player, index) => ({ ...player, rank: index + 1 }))\<close>.\<close>

definition rankPlayers1 :: "player list \<Rightarrow> ranked list" where
  "rankPlayers1 ps =
     map (\<lambda>(index, p). \<lparr>entry = p, rank = index + 1, timeFormatted = None\<rparr>) (enumerate 0 ps)"

definition leaderboard1 :: "env \<Rightarrow> player list \<Rightarrow> response" where
  "leaderboard1 e db =
     (if storageOk e then
        \<lparr>status = 200, success = True, payload = Board (rankPlayers1 (findSortedLimited db))\<rparr>
      else
        \<lparr>status = 500, success = False, payload = ErrorText ''Failed to fetch leaderboard data''\<rparr>)"

text \<open>
  \<open>formatTime\<close>, lines 302-306; \<open>padStart(2, '0')\<close> fills with the code unit 48 on the
  left.
\<close>

definition padStart2 :: "jsstring \<Rightarrow> jsstring" where
  "padStart2 s = replicate (2 - length s) 48 @ s"

definition formatTime :: "builtins \<Rightarrow> jsnum \<Rightarrow> jsstring" where
  "formatTime B seconds =
     (let mins = Math_floor (js_div seconds 60);
          secs = js_rem seconds 60
      in padStart2 (NumberToString B mins) @ utf16 '':'' @ padStart2 (NumberToString B secs))"

text \<open>Lines 282-286: as in variant 1, with \<open>timeFormatted\<close> added.\<close>

definition rankPlayers2 :: "builtins \<Rightarrow> player list \<Rightarrow> ranked list" where
  "rankPlayers2 B ps =
     map (\<lambda>(index, p). \<lparr>entry = p, rank = index + 1,
                          timeFormatted = Some (formatTime B (Some (timeTaken p)))\<rparr>) (enumerate 0 ps)"

definition leaderboard2 :: "builtins \<Rightarrow> env \<Rightarrow> player list \<Rightarrow> response" where
  "leaderboard2 B e db =
     (if storageOk e then
        \<lparr>status = 200, success = True, payload = Board (rankPlayers2 B (findSortedLimited db))\<rparr>
      else
        \<lparr>status = 500, success = False, payload = ErrorText ''Failed to load leaderboard''\<rparr>)"

text \<open>The \<open>data\<close> array of a leaderboard response; an error response carries none.\<close>

definition board :: "response \<Rightarrow> ranked list" where
  "board r = (case payload r of Board es \<Rightarrow> es | _ \<Rightarrow> [])"

text \<open>The order the query asks for: higher score first, lower timeTaken first among equals.\<close>

definition before :: "player \<Rightarrow> player \<Rightarrow> bool" where
  "before p q \<longleftrightarrow> score q < score p \<or> (score p = score q \<and> timeTaken p \<le> timeTaken q)"

section \<open>GET /health\<close>

text \<open>
  Lines 138-143, variant 1 only. The argument is \<open>mongoose.connection.readyState\<close>
  (0 disconnected, 1 connected, 2 connecting, 3 disconnecting).
\<close>

record health =
  h_code :: nat
  h_status :: string
  h_database :: string

definition healthCheck :: "nat \<Rightarrow> health" where
  "healthCheck readyState =
     \<lparr>h_code = 200, h_status = ''OK'',
      h_database = (if readyState = 1 then ''Connected'' else ''Disconnected'')\<rparr>"

section \<open>Observations and concrete inputs\<close>

text \<open>The score a submission response reports, if it reports one.\<close>

definition scoreOf :: "response \<Rightarrow> jsnum" where
  "scoreOf r = (case payload r of Doc p \<Rightarrow> Some (score p) | View v \<Rightarrow> Some (c_score v) | _ \<Rightarrow> None)"

text \<open>The records a request added to the collection \<open>db\<close>, given the collection after it.\<close>

definition added :: "player list \<Rightarrow> player list \<Rightarrow> player list" where
  "added db db' = drop (length db) db'"

text \<open>
  A choice of the engine builtins for concrete evaluations; it is used only at inputs
  that hold no string in a numeric position and no number in a string position.
\<close>

definition sampleBuiltins :: builtins where
  "sampleBuiltins = \<lparr>StringToNumber = (\<lambda>s. None), NumberToString = (\<lambda>r. [])\<rparr>"

definition sampleEnv :: env where
  "sampleEnv = \<lparr>storageOk = True, newId = 1, now = 1000\<rparr>"

text \<open>The request body \<open>{ name: n, department: "Eng", timeTaken: t }\<close>.\<close>

definition sampleBody :: "string \<Rightarrow> jsval \<Rightarrow> body" where
  "sampleBody n t =
     \<lparr>b_name = JStr (utf16 n), b_department = JStr (utf16 ''Eng''),
      b_email = JUndefined, b_timeTaken = t, b_score = JUndefined\<rparr>"

text \<open>
  The bounds the data model states for \<open>name\<close> and \<open>department\<close>: non-empty, at most 50
  code units, nothing for \<open>trim\<close> to remove.
\<close>

definition bounded50 :: "jsstring \<Rightarrow> bool" where
  "bounded50 s \<longleftrightarrow> s \<noteq> [] \<and> length s \<le> 50 \<and> js_trim s = s"

definition wellFormed :: "player \<Rightarrow> bool" where
  "wellFormed p \<longleftrightarrow> bounded50 (name p) \<and> bounded50 (department p)"

definition nonEmptyNames :: "player \<Rightarrow> bool" where
  "nonEmptyNames p \<longleftrightarrow> name p \<noteq> [] \<and> department p \<noteq> []"

text \<open>A stored record with the given score and timeTaken.\<close>

definition stored :: "nat \<Rightarrow> real \<Rightarrow> real \<Rightarrow> player" where
  "stored i s t =
     \<lparr>pid = i, name = utf16 ''Alice'', department = utf16 ''Eng'', email = None,
      timeTaken = Fin t, score = Fin s, createdAt = 1000, updatedAt = 1000\<rparr>"

section \<open>Binary64 rounding: lemmas\<close>

lemma xreal_less_simps [simp]:
  "Fin a < Fin b \<longleftrightarrow> a < b" "NegInf < Fin a" "Fin a < PosInf" "NegInf < PosInf"
  "\<not> Fin a < NegInf" "\<not> PosInf < y" "\<not> x < NegInf"
  by (cases x; cases y; auto simp: less_xreal_def)+

lemma xreal_neg_less: "- x < - y \<longleftrightarrow> y < (x::xreal)"
  by (cases x; cases y) simp_all

lemma xreal_neg_eq: "- x = - y \<longleftrightarrow> x = (y::xreal)"
  by (cases x; cases y) simp_all

lemma denormScale_pos: "0 < denormScale"
  unfolding denormScale_def by (rule zero_less_power) simp

lemma quantum_pos: "0 < quantum x"
  unfolding quantum_def using denormScale_pos by (intro divide_pos_pos zero_less_power) simp_all

lemma round_even_int: "round_even (of_int k) = k"
  by (simp add: round_even_def)

lemma round_even_cases: "round_even y = \<lfloor>y\<rfloor> \<or> round_even y = \<lfloor>y\<rfloor> + 1"
  by (simp add: round_even_def Let_def)

lemma round_even_nonneg: "0 \<le> y \<Longrightarrow> 0 \<le> round_even y"
  using round_even_cases [of y] by (auto simp: zero_le_floor)


lemma round_even_near:
  assumes "\<bar>y - of_int k\<bar> < 1/2"
  shows "round_even y = k"
proof (cases "of_int k \<le> y")
  case True
  with assms have f: "\<lfloor>y\<rfloor> = k" unfolding floor_eq_iff by linarith
  with assms True show ?thesis unfolding round_even_def Let_def by auto
next
  case False
  with assms have f: "\<lfloor>y\<rfloor> = k - 1" unfolding floor_eq_iff by auto
  with assms False show ?thesis unfolding round_even_def Let_def by auto
qed

lemma round_even_error: "\<bar>of_int (round_even y) - y\<bar> \<le> 1/2"
proof -
  have "of_int \<lfloor>y\<rfloor> \<le> y" "y < of_int \<lfloor>y\<rfloor> + 1" by linarith+
  then show ?thesis
    by (auto simp: round_even_def Let_def abs_le_iff)
qed

text \<open>The spacing for an arbitrary scale \<open>2 ^ d\<close>.\<close>

lemma bitlen_eqI:
  assumes "2 ^ n \<le> N" and "N < 2 ^ Suc n"
  shows "bitlen N = int (Suc n)"
proof (rule antisym)
  from assms(2) show "bitlen N \<le> int (Suc n)"
    unfolding bitlen_le_iff_power nat_int by simp
  from assms(1) show "int (Suc n) \<le> bitlen N"
    unfolding bitlen_ge_iff_power nat_int by simp
qed

lemma floor_scaled_bounds:
  fixes y :: real
  assumes "2 ^ n \<le> y" and "y < 2 ^ Suc n"
  shows "2 ^ n \<le> \<lfloor>y\<rfloor>" and "\<lfloor>y\<rfloor> < 2 ^ Suc n"
proof -
  have "of_int (2 ^ n) \<le> y" using assms(1) by simp
  then show "2 ^ n \<le> \<lfloor>y\<rfloor>" by (simp only: le_floor_iff)
  have "y < of_int (2 ^ Suc n)" using assms(2) by simp
  then show "\<lfloor>y\<rfloor> < 2 ^ Suc n" by (simp only: floor_less_iff)
qed

lemma spacing_normal:
  fixes x :: real and d n :: nat
  assumes "2 ^ n \<le> \<bar>x\<bar> * 2 ^ d" and "\<bar>x\<bar> * 2 ^ d < 2 ^ Suc n" and "52 \<le> n"
  shows "2 ^ nat (bitlen \<lfloor>\<bar>x\<bar> * 2 ^ d\<rfloor> - 53) / (2 ^ d :: real) = 2 ^ (n - 52) / 2 ^ d"
proof -
  from floor_scaled_bounds [OF assms(1,2)]
  have "bitlen \<lfloor>\<bar>x\<bar> * 2 ^ d\<rfloor> = int (Suc n)" by (rule bitlen_eqI)
  moreover from assms(3) have "nat (int (Suc n) - 53) = n - 52" by simp
  ultimately show ?thesis by simp
qed

lemma quantum_ge1:
  assumes "2 ^ j \<le> \<bar>x\<bar>" and "\<bar>x\<bar> < 2 ^ Suc j"
  shows "quantum x = 2 ^ j / 2 ^ 52"
proof -
  define d :: nat where "d = 1074"
  have d: "52 \<le> d" by (simp add: d_def)
  have D: "denormScale = 2 ^ d" by (simp only: denormScale_def d_def)
  have p: "(0::real) < 2 ^ d" by simp
  from assms(1) have a: "2 ^ (j + d) \<le> \<bar>x\<bar> * 2 ^ d"
    by (simp add: power_add)
  from assms(2) have b: "\<bar>x\<bar> * 2 ^ d < 2 ^ Suc (j + d)"
    by (simp add: power_add)
  from d have c: "52 \<le> j + d" by simp
  have "quantum x = 2 ^ (j + d - 52) / 2 ^ d"
    unfolding quantum_def D by (rule spacing_normal [OF a b c])
  also from d have "j + d - 52 = j + (d - 52)" by simp
  also have "(2::real) ^ (j + (d - 52)) / 2 ^ d = 2 ^ j * (2 ^ (d - 52) / 2 ^ d)"
    by (simp add: power_add)
  also from d have "(2::real) ^ (d - 52) / 2 ^ d = 1 / 2 ^ 52"
    by (simp add: power_diff field_simps)
  finally show ?thesis by simp
qed

lemma quantum_lt1:
  assumes "1 / 2 ^ j \<le> \<bar>x\<bar>" and "\<bar>x\<bar> < 2 / 2 ^ j" and "j \<le> 1022"
  shows "quantum x = 1 / 2 ^ (j + 52)"
proof -
  define d :: nat where "d = 1074"
  have d: "j + 52 \<le> d" using assms(3) by (simp add: d_def)
  have D: "denormScale = 2 ^ d" by (simp only: denormScale_def d_def)
  from d have e: "(2::real) ^ d = 2 ^ (d - j) * 2 ^ j"
    by (simp add: power_add [symmetric])
  from assms(1) have a: "2 ^ (d - j) \<le> \<bar>x\<bar> * 2 ^ d"
    unfolding e by (simp add: field_simps)
  from assms(2) have b: "\<bar>x\<bar> * 2 ^ d < 2 ^ Suc (d - j)"
    unfolding e by (simp add: field_simps)
  from d have c: "52 \<le> d - j" by simp
  have "quantum x = 2 ^ (d - j - 52) / 2 ^ d"
    unfolding quantum_def D by (rule spacing_normal [OF a b c])
  also from d have "(2::real) ^ d = 2 ^ (d - j - 52) * 2 ^ (j + 52)"
    by (simp add: power_add [symmetric])
  finally show ?thesis by simp
qed

lemma quantum_mono:
  assumes "\<bar>x\<bar> \<le> \<bar>y\<bar>"
  shows "quantum x \<le> quantum y"
proof -
  from assms denormScale_pos have "\<bar>x\<bar> * denormScale \<le> \<bar>y\<bar> * denormScale"
    by (simp add: mult_right_mono)
  then have "\<lfloor>\<bar>x\<bar> * denormScale\<rfloor> \<le> \<lfloor>\<bar>y\<bar> * denormScale\<rfloor>" by (rule floor_mono)
  then have "bitlen \<lfloor>\<bar>x\<bar> * denormScale\<rfloor> \<le> bitlen \<lfloor>\<bar>y\<bar> * denormScale\<rfloor>"
    unfolding bitlen_def by (simp add: floorlog_mono nat_mono)
  then have "nat (bitlen \<lfloor>\<bar>x\<bar> * denormScale\<rfloor> - 53) \<le> nat (bitlen \<lfloor>\<bar>y\<bar> * denormScale\<rfloor> - 53)"
    by simp
  then have "(2::real) ^ nat (bitlen \<lfloor>\<bar>x\<bar> * denormScale\<rfloor> - 53)
      \<le> 2 ^ nat (bitlen \<lfloor>\<bar>y\<bar> * denormScale\<rfloor> - 53)"
    by (rule power_increasing) simp
  with denormScale_pos show ?thesis
    unfolding quantum_def by (simp add: divide_right_mono)
qed

lemma threshold_large: "(2::real) ^ 970 \<le> overflowThreshold"
proof -
  have a: "(2::real) ^ 1024 = 2 ^ 970 * 2 ^ 54"
  proof -
    have "(1024::nat) = 970 + 54" by simp
    then have "(2::real) ^ 1024 = 2 ^ (970 + 54)" by (rule arg_cong)
    then show ?thesis by (simp only: power_add)
  qed
  have c: "(2::real) \<le> 2 ^ 54" using power_increasing [of 1 54 "2::real"] by simp
  have d: "(0::real) < 2 ^ 970" by (rule zero_less_power) simp
  from c d have "(2::real) ^ 970 * 2 \<le> 2 ^ 970 * 2 ^ 54" by (simp only: mult_le_cancel_left_pos)
  then show ?thesis unfolding overflowThreshold_def a by linarith
qed

lemma threshold_pos: "0 < overflowThreshold"
proof -
  have "(0::real) < 2 ^ 970" by (rule zero_less_power) simp
  with threshold_large show ?thesis by linarith
qed

lemma small_below_threshold:
  assumes "\<bar>x\<bar> \<le> 2 ^ 53"
  shows "\<not> overflowThreshold \<le> \<bar>x\<bar>"
proof -
  have a: "(2::real) ^ 1024 = 2 ^ 970 * 2 ^ 54"
  proof -
    have "(1024::nat) = 970 + 54" by simp
    then have "(2::real) ^ 1024 = 2 ^ (970 + 54)" by (rule arg_cong)
    then show ?thesis by (simp only: power_add)
  qed
  have b: "(2::real) ^ 54 \<le> 2 ^ 970" by (rule power_increasing) simp_all
  have c: "(2::real) \<le> 2 ^ 54" using power_increasing [of 1 54 "2::real"] by simp
  have d: "(0::real) < 2 ^ 970" by (rule zero_less_power) simp
  from c d have "(2::real) ^ 970 * 2 \<le> 2 ^ 970 * 2 ^ 54" by (simp only: mult_le_cancel_left_pos)
  then have "(2::real) ^ 970 \<le> overflowThreshold"
    unfolding overflowThreshold_def a by linarith
  moreover have "(2::real) ^ 53 < 2 ^ 54" by (rule power_strict_increasing) simp_all
  ultimately show ?thesis using assms b by linarith
qed

lemma round64_finite:
  assumes "\<bar>x\<bar> \<le> 2 ^ 53"
  shows "round64 x = Fin (of_int (round_even (x / quantum x)) * quantum x)"
  unfolding round64_def using small_below_threshold [OF assms] by (simp only: if_False)

lemma round64_nonneg:
  assumes "0 \<le> x"
  shows "Fin 0 \<le> round64 x"
proof (cases "overflowThreshold \<le> \<bar>x\<bar>")
  case True
  with assms threshold_pos have "0 < x" by linarith
  with True show ?thesis by (simp add: round64_def)
next
  case False
  from assms quantum_pos [of x] have "0 \<le> x / quantum x" by simp
  then have "0 \<le> round_even (x / quantum x)" by (rule round_even_nonneg)
  with quantum_pos [of x] False show ?thesis by (simp add: round64_def)
qed


text \<open>A dyadic rational with a 53-bit numerator is a binary64 value: rounding keeps it.\<close>

lemma spacing_exact:
  fixes d s :: nat and m :: int
  assumes x: "x = of_int m / 2 ^ s" and m: "\<bar>m\<bar> < 2 ^ 53" and s: "s \<le> d"
  defines "q \<equiv> 2 ^ nat (bitlen \<lfloor>\<bar>x\<bar> * 2 ^ d\<rfloor> - 53) / (2 ^ d :: real)"
  shows "of_int (round_even (x / q)) * q = x"
proof (cases "m = 0")
  case True
  with x show ?thesis by (simp add: round_even_def)
next
  case False
  define a where "a = nat (bitlen \<lfloor>\<bar>x\<bar> * 2 ^ d\<rfloor> - 53)"
  from s have e: "(2::real) ^ d = 2 ^ (d - s) * 2 ^ s"
    by (simp add: power_add [symmetric])
  have "\<bar>x\<bar> * 2 ^ d = of_int (\<bar>m\<bar> * 2 ^ (d - s))"
    unfolding x e by (simp add: abs_divide)
  then have "\<lfloor>\<bar>x\<bar> * 2 ^ d\<rfloor> = \<bar>m\<bar> * 2 ^ (d - s)" by (simp only: floor_of_int)
  moreover from False have "bitlen (\<bar>m\<bar> * 2 ^ (d - s)) = bitlen \<bar>m\<bar> + int (d - s)"
    by (simp add: bitlen_pow2)
  moreover from m have "bitlen \<bar>m\<bar> \<le> 53" unfolding bitlen_le_iff_power by simp
  ultimately have a: "a \<le> d - s" unfolding a_def by (simp add: nat_le_iff)
  then have f: "(2::real) ^ (d - s) = 2 ^ (d - s - a) * 2 ^ a"
    by (simp add: power_add [symmetric])
  have q: "q = 2 ^ a / 2 ^ d" unfolding q_def a_def ..
  have "x / q = of_int (m * 2 ^ (d - s - a))"
    unfolding q x e f by simp
  then have "of_int (round_even (x / q)) * q = of_int (m * 2 ^ (d - s - a)) * q"
    by (simp only: round_even_int)
  also have "\<dots> = x" unfolding q x e f by simp
  finally show ?thesis .
qed

lemma round64_dyadic:
  assumes "x = of_int m / 2 ^ s" and "\<bar>m\<bar> < 2 ^ 53" and "s \<le> 1074"
  shows "round64 x = Fin x"
proof -
  have p: "(1::real) \<le> 2 ^ s" by simp
  have "\<bar>x\<bar> = \<bar>of_int m\<bar> / 2 ^ s" unfolding assms(1) by (simp add: abs_divide)
  also have "\<dots> \<le> \<bar>of_int m\<bar>"
    using mult_left_mono [OF p, of "\<bar>real_of_int m\<bar>"] by (simp add: divide_le_eq)
  also from assms(2) have "\<bar>real_of_int m\<bar> \<le> 2 ^ 53"
    by (metis less_imp_le of_int_abs of_int_le_iff of_int_numeral of_int_power)
  finally have "\<bar>x\<bar> \<le> 2 ^ 53" .
  then have "round64 x = Fin (of_int (round_even (x / quantum x)) * quantum x)"
    by (rule round64_finite)
  also have "of_int (round_even (x / quantum x)) * quantum x = x"
    unfolding quantum_def denormScale_def by (rule spacing_exact [OF assms])
  finally show ?thesis .
qed

lemma round64_of_int: "\<bar>k\<bar> < 2 ^ 53 \<Longrightarrow> round64 (of_int k) = Fin (of_int k)"
  using round64_dyadic [of "of_int k" k 0] by simp

lemma round64_half: "\<bar>k\<bar> < 2 ^ 53 \<Longrightarrow> round64 (of_int k / 2) = Fin (of_int k / 2)"
  using round64_dyadic [of "of_int k / 2" k 1] by simp

text \<open>Rounding moves a value by at most half the spacing.\<close>

lemma round64_error:
  assumes "\<bar>x\<bar> \<le> 2 ^ 53"
  obtains a where "round64 x = Fin a" and "\<bar>a - x\<bar> \<le> quantum x / 2"
proof -
  let ?q = "quantum x"
  let ?a = "of_int (round_even (x / ?q)) * ?q"
  from quantum_pos [of x] have q: "0 < ?q" .
  have "?a - x = (of_int (round_even (x / ?q)) - x / ?q) * ?q"
    using q by (simp add: left_diff_distrib)
  then have "\<bar>?a - x\<bar> = \<bar>of_int (round_even (x / ?q)) - x / ?q\<bar> * ?q"
    using q by (simp only: abs_mult abs_of_pos)
  also have "\<dots> \<le> (1/2) * ?q"
    using round_even_error [of "x / ?q"] q by (intro mult_right_mono) simp_all
  finally have "\<bar>?a - x\<bar> \<le> ?q / 2" by simp
  with round64_finite [OF assms] that show ?thesis by blast
qed

lemma round64_near:
  assumes "2 ^ j \<le> \<bar>x\<bar>" and "\<bar>x\<bar> < 2 ^ Suc j" and "\<bar>x\<bar> \<le> 2 ^ 53"
    and "\<bar>x / (2 ^ j / 2 ^ 52) - of_int n\<bar> < 1/2"
  shows "round64 x = Fin (of_int n * (2 ^ j / 2 ^ 52))"
proof -
  have q: "quantum x = 2 ^ j / 2 ^ 52" using assms(1,2) by (rule quantum_ge1)
  from assms(4) have "round_even (x / quantum x) = n" unfolding q by (rule round_even_near)
  with round64_finite [OF assms(3)] show ?thesis by (simp only: q)
qed

lemma budget_rounding:
  assumes "0 \<le> x" and "x \<le> 600"
  obtains a where "round64 x = Fin a" and "0 \<le> a" and "a \<le> 601"
proof -
  from assms have b: "\<bar>x\<bar> \<le> 2 ^ 53" by simp
  then obtain a where a: "round64 x = Fin a" and e: "\<bar>a - x\<bar> \<le> quantum x / 2"
    by (rule round64_error)
  from assms have "\<bar>x\<bar> \<le> \<bar>600::real\<bar>" by simp
  then have "quantum x \<le> quantum 600" by (rule quantum_mono)
  also have "quantum 600 = 2 ^ 9 / 2 ^ 52" by (rule quantum_ge1) simp_all
  also have "\<dots> \<le> (2::real)" by simp
  finally have "quantum x \<le> 2" .
  with e assms have "a \<le> 601" by linarith
  moreover from round64_nonneg [OF assms(1)] a have "0 \<le> a" by simp
  ultimately show ?thesis using a that by blast
qed

section \<open>Score expressions: lemmas\<close>

lemma max_Fin: "max (Fin a) (Fin b) = Fin (max a b)"
  by (simp add: max_def)

lemma score2_Fin:
  assumes "round64 (600 - t) = Fin a" and "round64 (a * 1.5) = Fin b"
  shows "score2 (Some (Fin t)) = Some (Fin (real_of_int \<lfloor>b\<rfloor>))"
  using assms by (simp add: score2_def)

lemma score1_Fin:
  assumes "round64 (600 - t) = Fin a" and "round64 (a * 1.5) = Fin b"
  shows "score1 (Some (Fin t)) = Some (Fin (real_of_int (max 0 \<lfloor>b\<rfloor>)))"
  using assms by (simp add: score1_def max_Fin)

lemma score_in_budget:
  assumes "0 \<le> t" and "t \<le> 600"
  obtains a b where "round64 (600 - t) = Fin a" and "round64 (a * 1.5) = Fin b"
    and "0 \<le> \<lfloor>b\<rfloor>"
    and "score1 (Some (Fin t)) = Some (Fin (real_of_int \<lfloor>b\<rfloor>))"
    and "score2 (Some (Fin t)) = Some (Fin (real_of_int \<lfloor>b\<rfloor>))"
proof -
  from assms have "0 \<le> 600 - t" "600 - t \<le> 600" by simp_all
  then obtain a where a: "round64 (600 - t) = Fin a" "0 \<le> a" "a \<le> 601"
    by (rule budget_rounding)
  from a(2,3) have "\<bar>a * 1.5\<bar> \<le> 2 ^ 53" by simp
  from round64_finite [OF this]
  obtain b where b: "round64 (a * 1.5) = Fin b" by blast
  from a(2) have "0 \<le> a * 1.5" by simp
  from round64_nonneg [OF this] b have "0 \<le> b" by simp
  then have f: "0 \<le> \<lfloor>b\<rfloor>" by simp
  from score1_Fin [OF a(1) b] f
  have "score1 (Some (Fin t)) = Some (Fin (real_of_int \<lfloor>b\<rfloor>))" by (simp add: max_def)
  with a(1) b f score2_Fin [OF a(1) b] that show ?thesis by blast
qed




lemma score_exact:
  assumes "round64 (600 - t) = Fin (600 - t)"
    and "round64 ((600 - t) * 1.5) = Fin ((600 - t) * 1.5)"
  shows "score2 (Some (Fin t)) = Some (Fin (real_of_int \<lfloor>(600 - t) * 1.5\<rfloor>))"
    and "score1 (Some (Fin t)) = Some (Fin (real_of_int (max 0 \<lfloor>(600 - t) * 1.5\<rfloor>)))"
  using score2_Fin [OF assms] score1_Fin [OF assms] by blast+

lemma score_of_int:
  assumes "\<bar>k\<bar> \<le> 2 ^ 50"
  shows "score2 (Some (Fin (of_int k))) = Some (Fin (real_of_int \<lfloor>(600 - real_of_int k) * 1.5\<rfloor>))"
    and "score1 (Some (Fin (of_int k)))
          = Some (Fin (real_of_int (max 0 \<lfloor>(600 - real_of_int k) * 1.5\<rfloor>)))"
proof -
  from assms have "\<bar>600 - k\<bar> < 2 ^ 53" by simp
  from round64_of_int [OF this]
  have a: "round64 (600 - real_of_int k) = Fin (600 - real_of_int k)" by simp
  from assms have "\<bar>3 * (600 - k)\<bar> < 2 ^ 53" by simp
  from round64_half [OF this]
  have b: "round64 ((600 - real_of_int k) * 1.5) = Fin ((600 - real_of_int k) * 1.5)"
    by (simp add: mult.commute)
  from score_exact [OF a b]
  show "score2 (Some (Fin (of_int k))) = Some (Fin (real_of_int \<lfloor>(600 - real_of_int k) * 1.5\<rfloor>))"
    and "score1 (Some (Fin (of_int k)))
          = Some (Fin (real_of_int (max 0 \<lfloor>(600 - real_of_int k) * 1.5\<rfloor>)))"
    by blast+
qed

lemma score_whole_seconds:
  assumes "0 \<le> k" and "k \<le> 600"
  shows "score2 (Some (Fin (of_int k))) = Some (Fin (real_of_int \<lfloor>(600 - real_of_int k) * 1.5\<rfloor>))"
    and "score1 (Some (Fin (of_int k))) = Some (Fin (real_of_int \<lfloor>(600 - real_of_int k) * 1.5\<rfloor>))"
proof -
  from assms have k: "\<bar>k\<bar> \<le> 2 ^ 50" by simp
  from score_of_int(1) [OF k]
  show "score2 (Some (Fin (of_int k))) = Some (Fin (real_of_int \<lfloor>(600 - real_of_int k) * 1.5\<rfloor>))" .
  from assms have "0 \<le> \<lfloor>(600 - real_of_int k) * 1.5\<rfloor>" by simp
  then have "max 0 \<lfloor>(600 - real_of_int k) * 1.5\<rfloor> = \<lfloor>(600 - real_of_int k) * 1.5\<rfloor>"
    by (rule max_absorb2)
  with score_of_int(2) [OF k]
  show "score1 (Some (Fin (of_int k))) = Some (Fin (real_of_int \<lfloor>(600 - real_of_int k) * 1.5\<rfloor>))"
    by (simp only:)
qed

text \<open>The scores of the concrete runs below.\<close>

lemma score_at_100: "score1 (Some (Fin 100)) = Some (Fin 750)" "score2 (Some (Fin 100)) = Some (Fin 750)"
  using score_of_int [of 100] by simp_all

lemma score_at_250: "score1 (Some (Fin 250)) = Some (Fin 525)" "score2 (Some (Fin 250)) = Some (Fin 525)"
  using score_of_int [of 250] by simp_all

lemma score_at_0: "score1 (Some (Fin 0)) = Some (Fin 900)" "score2 (Some (Fin 0)) = Some (Fin 900)"
  using score_of_int [of 0] by simp_all

lemma score_at_600: "score1 (Some (Fin 600)) = Some (Fin 0)" "score2 (Some (Fin 600)) = Some (Fin 0)"
  using score_of_int [of 600] by simp_all

lemma score_at_601: "score1 (Some (Fin 601)) = Some (Fin 0)" "score2 (Some (Fin 601)) = Some (Fin (- 2))"
  using score_of_int [of 601] by simp_all

lemma score_at_minus_5: "score1 (Some (Fin (- 5))) = Some (Fin 907)"
  using score_of_int(2) [of "- 5"] by simp

section \<open>Leaderboard, health check and equivalence: theorems\<close>

lemma sortKey_le: "sortKey p \<le> sortKey q \<longleftrightarrow> before p q"
  by (auto simp: sortKey_def before_def less_eq_prod_def xreal_neg_less xreal_neg_eq
      order.order_iff_strict)

lemma sorted_findSortedLimited: "sorted_wrt before (findSortedLimited db)"
proof -
  have "sorted (map sortKey (sort_key sortKey db))" by (rule sorted_sort_key)
  then have "sorted_wrt before (sort_key sortKey db)"
    by (simp add: sorted_map sortKey_le)
  then show ?thesis
    unfolding findSortedLimited_def by (rule sorted_wrt_take)
qed

lemma length_findSortedLimited: "length (findSortedLimited db) = min 50 (length db)"
  by (simp add: findSortedLimited_def)

lemma entry_rank1_gen:
  "map entry (map (\<lambda>(index, p). \<lparr>entry = p, rank = index + 1, timeFormatted = None\<rparr>)
     (enumerate n ps)) = ps"
  by (induction ps arbitrary: n) simp_all

lemma rank_rank1_gen:
  "map rank (map (\<lambda>(index, p). \<lparr>entry = p, rank = index + 1, timeFormatted = None\<rparr>)
     (enumerate n ps)) = map Suc (map fst (enumerate n ps))"
  by (induction ps arbitrary: n) simp_all

lemma entry_rank2_gen:
  "map entry (map (\<lambda>(index, p). \<lparr>entry = p, rank = index + 1,
       timeFormatted = Some (formatTime B (Some (timeTaken p)))\<rparr>) (enumerate n ps)) = ps"
  by (induction ps arbitrary: n) simp_all

lemma rank_rank2_gen:
  "map rank (map (\<lambda>(index, p). \<lparr>entry = p, rank = index + 1,
       timeFormatted = Some (formatTime B (Some (timeTaken p)))\<rparr>) (enumerate n ps))
   = map Suc (map fst (enumerate n ps))"
  by (induction ps arbitrary: n) simp_all

lemma entry_rankPlayers1: "map entry (rankPlayers1 ps) = ps"
  unfolding rankPlayers1_def by (rule entry_rank1_gen)

lemma entry_rankPlayers2: "map entry (rankPlayers2 B ps) = ps"
  unfolding rankPlayers2_def by (rule entry_rank2_gen)

lemma rank_rankPlayers1: "map rank (rankPlayers1 ps) = [1..<Suc (length ps)]"
  unfolding rankPlayers1_def rank_rank1_gen by (simp add: map_Suc_upt del: upt_Suc)

lemma rank_rankPlayers2: "map rank (rankPlayers2 B ps) = [1..<Suc (length ps)]"
  unfolding rankPlayers2_def rank_rank2_gen by (simp add: map_Suc_upt del: upt_Suc)

lemma board1: "board (leaderboard1 e db) = (if storageOk e then rankPlayers1 (findSortedLimited db) else [])"
  by (simp add: board_def leaderboard1_def)

lemma board2: "board (leaderboard2 B e db) = (if storageOk e then rankPlayers2 B (findSortedLimited db) else [])"
  by (simp add: board_def leaderboard2_def)

lemma length_rank1: "length (rankPlayers1 ps) = length ps"
  by (simp add: rankPlayers1_def)

lemma length_rank2: "length (rankPlayers2 B ps) = length ps"
  by (simp add: rankPlayers2_def)

text \<open>
  C8. For every storage state, the sequence returned by GetLeaderboard holds at most 50
  entries, in both variants; when the query reaches the database it holds exactly the
  smaller of 50 and the number of stored records.
\<close>

theorem C8_at_most_50:
  "length (board (leaderboard1 e db)) \<le> 50 \<and> length (board (leaderboard2 B e db)) \<le> 50
   \<and> length (board (leaderboard1 (e\<lparr>storageOk := True\<rparr>) db)) = min 50 (length db)
   \<and> length (board (leaderboard2 B (e\<lparr>storageOk := True\<rparr>) db)) = min 50 (length db)"
  by (simp add: board1 board2 length_rank1 length_rank2 length_findSortedLimited)

text \<open>
  C7. The sequence returned by GetLeaderboard is ordered by score descending with
  timeTaken ascending as tie-break, and the ranks are 1, 2, 3, ... in the returned
  order, in both variants. Stored records with scores 750, 900, 750 and timeTaken
  100, 0, 50 come back as 900/0, 750/50, 750/100 with ranks 1, 2, 3.
\<close>

theorem C7_order_and_ranks:
  "sorted_wrt before (map entry (board (leaderboard1 e db)))
   \<and> map rank (board (leaderboard1 e db)) = [1..<Suc (length (board (leaderboard1 e db)))]
   \<and> sorted_wrt before (map entry (board (leaderboard2 B e db)))
   \<and> map rank (board (leaderboard2 B e db)) = [1..<Suc (length (board (leaderboard2 B e db)))]
   \<and> map (\<lambda>r. (score (entry r), timeTaken (entry r), rank r))
        (board (leaderboard1 sampleEnv [stored 1 750 100, stored 2 900 0, stored 3 750 50]))
      = [(Fin 900, Fin 0, 1), (Fin 750, Fin 50, 2), (Fin 750, Fin 100, 3)]
   \<and> map (\<lambda>r. (score (entry r), timeTaken (entry r), rank r))
        (board (leaderboard2 B sampleEnv [stored 1 750 100, stored 2 900 0, stored 3 750 50]))
      = [(Fin 900, Fin 0, 1), (Fin 750, Fin 50, 2), (Fin 750, Fin 100, 3)]"
proof -
  have a: "sorted_wrt before (map entry (board (leaderboard1 e db)))"
    by (simp add: board1 entry_rankPlayers1 sorted_findSortedLimited)
  have b: "map rank (board (leaderboard1 e db)) = [1..<Suc (length (board (leaderboard1 e db)))]"
    by (simp add: board1 rank_rankPlayers1 length_rank1 del: upt_Suc)
  have c: "sorted_wrt before (map entry (board (leaderboard2 B e db)))"
    by (simp add: board2 entry_rankPlayers2 sorted_findSortedLimited)
  have d: "map rank (board (leaderboard2 B e db)) = [1..<Suc (length (board (leaderboard2 B e db)))]"
    by (simp add: board2 rank_rankPlayers2 length_rank2 del: upt_Suc)
  have f: "map (\<lambda>r. (score (entry r), timeTaken (entry r), rank r))
        (board (leaderboard1 sampleEnv [stored 1 750 100, stored 2 900 0, stored 3 750 50]))
      = [(Fin 900, Fin 0, 1), (Fin 750, Fin 50, 2), (Fin 750, Fin 100, 3)]"
    by (simp add: board_def leaderboard1_def sampleEnv_def rankPlayers1_def
        findSortedLimited_def stored_def sortKey_def)
  have g: "map (\<lambda>r. (score (entry r), timeTaken (entry r), rank r))
        (board (leaderboard2 B sampleEnv [stored 1 750 100, stored 2 900 0, stored 3 750 50]))
      = [(Fin 900, Fin 0, 1), (Fin 750, Fin 50, 2), (Fin 750, Fin 100, 3)]"
    by (simp add: board_def leaderboard2_def sampleEnv_def rankPlayers2_def
        findSortedLimited_def stored_def sortKey_def)
  from a b c d f g show ?thesis by blast
qed

text \<open>
  C9. HealthCheck has no failing branch: for every connection state the response is
  HTTP 200 with status OK, and the database field reads Disconnected whenever
  readyState is not 1 (connected), Connected otherwise.
\<close>

theorem C9_health_always_200:
  "h_code (healthCheck readyState) = 200
   \<and> h_status (healthCheck readyState) = ''OK''
   \<and> h_database (healthCheck readyState) = (if readyState = 1 then ''Connected'' else ''Disconnected'')
   \<and> healthCheck 0 = \<lparr>h_code = 200, h_status = ''OK'', h_database = ''Disconnected''\<rparr>
   \<and> healthCheck 1 = \<lparr>h_code = 200, h_status = ''OK'', h_database = ''Connected''\<rparr>"
  by (simp add: healthCheck_def)

text \<open>
  C10. For every timeTaken in [0, 600], the score expression of variant 1 (with
  \<open>Math.max(0, ...)\<close>) and the pre-save hook expression of variant 2 (without it)
  compute the same value, both evaluated in binary64 arithmetic.
\<close>

theorem C10_variants_agree:
  assumes "0 \<le> t" and "t \<le> 600"
  shows "score1 (Some (Fin t)) = score2 (Some (Fin t))"
proof -
  from assms obtain a b where
    "round64 (600 - t) = Fin a" "round64 (a * 1.5) = Fin b" "0 \<le> \<lfloor>b\<rfloor>"
    "score1 (Some (Fin t)) = Some (Fin (real_of_int \<lfloor>b\<rfloor>))"
    "score2 (Some (Fin t)) = Some (Fin (real_of_int \<lfloor>b\<rfloor>))"
    by (rule score_in_budget)
  then show ?thesis by simp
qed

theorem C10_variants_agree_witness:
  "(0::real) \<le> 250 \<and> (250::real) \<le> 600 \<and> score1 (Some (Fin 250)) = score2 (Some (Fin 250))
   \<and> score2 (Some (Fin 250)) = Some (Fin 525)"
proof -
  have a: "(0::real) \<le> 250" and b: "(250::real) \<le> 600" by simp_all
  show ?thesis using C10_variants_agree [OF a b] a b score_at_250(2) by simp
qed

section \<open>Submission: outcomes\<close>

lemma submit1_400:
  "\<not> truthy (b_name b) \<or> \<not> truthy (b_department b) \<or> b_timeTaken b = JUndefined \<Longrightarrow>
   submit1 B e db b =
     (\<lparr>status = 400, success = False,
       payload = ErrorText ''Missing required fields: name, department or timeTaken''\<rparr>, db)"
  unfolding submit1_def by (simp only: if_True)

lemma submit2_400:
  "\<not> truthy (b_name b) \<or> \<not> truthy (b_department b) \<or> b_timeTaken b = JUndefined \<Longrightarrow>
   submit2 B e db b =
     (\<lparr>status = 400, success = False, payload = ErrorText ''Missing required fields''\<rparr>, db)"
  unfolding submit2_def by (simp only: if_True)

lemma submit1_save:
  "\<not> (\<not> truthy (b_name b) \<or> \<not> truthy (b_department b) \<or> b_timeTaken b = JUndefined) \<Longrightarrow>
   submit1 B e db b =
     (case save1 B e b (computeScore1 B (b_timeTaken b)) of
        Inl err \<Rightarrow> (\<lparr>status = 500, success = False, payload = ErrorOf err\<rparr>, db)
      | Inr p \<Rightarrow> (\<lparr>status = 201, success = True, payload = Doc p\<rparr>, db @ [p]))"
  unfolding submit1_def by (simp only: if_False Let_def)

lemma submit2_save:
  "\<not> (\<not> truthy (b_name b) \<or> \<not> truthy (b_department b) \<or> b_timeTaken b = JUndefined) \<Longrightarrow>
   submit2 B e db b =
     (case save2 B e b of
        Inl err \<Rightarrow>
          (\<lparr>status = 500, success = False, payload = ErrorText ''Failed to save player data''\<rparr>, db)
      | Inr p \<Rightarrow>
          (\<lparr>status = 201, success = True,
            payload = View \<lparr>c_id = pid p, c_name = name p, c_department = department p,
                            c_timeTaken = timeTaken p, c_score = score p,
                            c_createdAt = createdAt p\<rparr>\<rparr>,
           db @ [p]))"
  unfolding submit2_def by (simp only: if_False)

text \<open>Every outcome of a submission is one of three.\<close>

lemma submit1_outcome:
  "(status (fst (submit1 B e db b)) = 400 \<and> \<not> success (fst (submit1 B e db b))
      \<and> snd (submit1 B e db b) = db)
   \<or> (status (fst (submit1 B e db b)) = 500 \<and> \<not> success (fst (submit1 B e db b))
      \<and> snd (submit1 B e db b) = db)
   \<or> (\<exists>p. save1 B e b (computeScore1 B (b_timeTaken b)) = Inr p
        \<and> submit1 B e db b = (\<lparr>status = 201, success = True, payload = Doc p\<rparr>, db @ [p]))"
proof (cases "\<not> truthy (b_name b) \<or> \<not> truthy (b_department b) \<or> b_timeTaken b = JUndefined")
  case True
  then show ?thesis by (simp add: submit1_400)
next
  case False
  then show ?thesis
    by (cases "save1 B e b (computeScore1 B (b_timeTaken b))") (simp_all add: submit1_save)
qed

lemma submit2_outcome:
  "(status (fst (submit2 B e db b)) = 400 \<and> \<not> success (fst (submit2 B e db b))
      \<and> snd (submit2 B e db b) = db)
   \<or> (status (fst (submit2 B e db b)) = 500 \<and> \<not> success (fst (submit2 B e db b))
      \<and> snd (submit2 B e db b) = db)
   \<or> (\<exists>p. save2 B e b = Inr p
        \<and> submit2 B e db b =
            (\<lparr>status = 201, success = True,
              payload = View \<lparr>c_id = pid p, c_name = name p, c_department = department p,
                              c_timeTaken = timeTaken p, c_score = score p,
                              c_createdAt = createdAt p\<rparr>\<rparr>,
             db @ [p]))"
proof (cases "\<not> truthy (b_name b) \<or> \<not> truthy (b_department b) \<or> b_timeTaken b = JUndefined")
  case True
  then show ?thesis by (simp add: submit2_400)
next
  case False
  then show ?thesis
    by (cases "save2 B e b") (simp_all add: submit2_save)
qed

lemma submit1_success:
  assumes "success (fst (submit1 B e db b))"
  obtains p where "save1 B e b (computeScore1 B (b_timeTaken b)) = Inr p"
    and "submit1 B e db b = (\<lparr>status = 201, success = True, payload = Doc p\<rparr>, db @ [p])"
  using submit1_outcome [of B e db b] assms by auto

lemma submit2_success:
  assumes "success (fst (submit2 B e db b))"
  obtains p where "save2 B e b = Inr p"
    and "submit2 B e db b =
            (\<lparr>status = 201, success = True,
              payload = View \<lparr>c_id = pid p, c_name = name p, c_department = department p,
                              c_timeTaken = timeTaken p, c_score = score p,
                              c_createdAt = createdAt p\<rparr>\<rparr>,
             db @ [p])"
  using submit2_outcome [of B e db b] assms by auto

lemma submit1_failure: "\<not> success (fst (submit1 B e db b)) \<Longrightarrow> snd (submit1 B e db b) = db"
  using submit1_outcome [of B e db b] by auto

lemma submit2_failure: "\<not> success (fst (submit2 B e db b)) \<Longrightarrow> snd (submit2 B e db b) = db"
  using submit2_outcome [of B e db b] by auto

lemma requiredString_Nil: "requiredString p c = [] \<longleftrightarrow> (\<exists>s. c = Cast s \<and> s \<noteq> [])"
  by (cases c) (simp_all add: requiredString_def)

lemma requiredNumber_Nil: "requiredNumber p c = [] \<longleftrightarrow> (\<exists>r. c = Cast r)"
  by (cases c) (simp_all add: requiredNumber_def)

lemma maxlength_Nil: "maxlength p n (Cast s) = [] \<longleftrightarrow> length s \<le> n"
  by (simp add: maxlength_def)

lemma minNumber_Nil: "minNumber p m (Cast r) = [] \<longleftrightarrow> m \<le> r"
  by (simp add: minNumber_def)

lemma maxNumber_Nil: "maxNumber p m (Cast r) = [] \<longleftrightarrow> r \<le> m"
  by (simp add: maxNumber_def)

lemma save1_Inr:
  assumes "save1 B e b sc = Inr p"
  shows "validate1 B b sc = []" and "storageOk e"
    and "name p = castValue [] (castString B (b_name b))"
    and "department p = castValue [] (castString B (b_department b))"
    and "timeTaken p = castValue (Fin 0) (castNumber B (b_timeTaken b))"
    and "score p = castValue (Fin 0) (castNum sc)"
  using assms by (auto simp: save1_def Let_def split: if_splits)

lemma save2_Inr:
  assumes "save2 B e b = Inr p"
  shows "validate2 B b = []" and "storageOk e"
    and "name p = castValue [] (trimSetter (castString B (b_name b)))"
    and "department p = castValue [] (trimSetter (castString B (b_department b)))"
    and "timeTaken p = castValue (Fin 0) (castNumber B (b_timeTaken b))"
    and "Some (score p) = score2 (Some (castValue (Fin 0) (castNumber B (b_timeTaken b))))"
  using assms
  by (auto simp: save2_def Let_def castNum_def split: if_splits cast.splits option.splits)

lemma validate1_Nil:
  assumes "validate1 B b sc = []"
  shows "\<exists>s. castString B (b_name b) = Cast s \<and> s \<noteq> []"
    and "\<exists>s. castString B (b_department b) = Cast s \<and> s \<noteq> []"
    and "\<exists>r. castNumber B (b_timeTaken b) = Cast r"
    and "\<exists>r. castNum sc = Cast r"
  using assms by (simp_all add: validate1_def requiredString_Nil requiredNumber_Nil)

lemma validate2_Nil:
  assumes "validate2 B b = []"
  shows "\<exists>s. trimSetter (castString B (b_name b)) = Cast s \<and> s \<noteq> [] \<and> length s \<le> 50"
    and "\<exists>s. trimSetter (castString B (b_department b)) = Cast s \<and> s \<noteq> [] \<and> length s \<le> 50"
    and "\<exists>r. castNumber B (b_timeTaken b) = Cast r \<and> Fin 0 \<le> r \<and> r \<le> Fin 600"
proof -
  let ?n = "trimSetter (castString B (b_name b))"
  let ?d = "trimSetter (castString B (b_department b))"
  let ?t = "castNumber B (b_timeTaken b)"
  from assms have n: "requiredString ''name'' ?n = []" "maxlength ''name'' 50 ?n = []"
    and d: "requiredString ''department'' ?d = []" "maxlength ''department'' 50 ?d = []"
    and t: "requiredNumber ''timeTaken'' ?t = []" "minNumber ''timeTaken'' (Fin 0) ?t = []"
      "maxNumber ''timeTaken'' (Fin 600) ?t = []"
    by (simp_all add: validate2_def Let_def)
  from n show "\<exists>s. ?n = Cast s \<and> s \<noteq> [] \<and> length s \<le> 50"
    by (auto simp: requiredString_Nil maxlength_Nil)
  from d show "\<exists>s. ?d = Cast s \<and> s \<noteq> [] \<and> length s \<le> 50"
    by (auto simp: requiredString_Nil maxlength_Nil)
  from t show "\<exists>r. ?t = Cast r \<and> Fin 0 \<le> r \<and> r \<le> Fin 600"
    by (auto simp: requiredNumber_Nil minNumber_Nil maxNumber_Nil)
qed

lemma save1_ignores_score: "save1 B e (b\<lparr>b_score := x\<rparr>) sc = save1 B e b sc"
  by (simp add: save1_def validate1_def Let_def)

lemma save2_ignores_score: "save2 B e (b\<lparr>b_score := x\<rparr>) = save2 B e b"
  by (simp add: save2_def validate2_def Let_def split: cast.splits)

lemma submit1_ignores_score: "submit1 B e db (b\<lparr>b_score := x\<rparr>) = submit1 B e db b"
  by (simp add: submit1_def save1_ignores_score)

lemma submit2_ignores_score: "submit2 B e db (b\<lparr>b_score := x\<rparr>) = submit2 B e db b"
  by (simp add: submit2_def save2_ignores_score)

lemma submit1_score:
  assumes "success (fst (submit1 B e db b))"
  shows "scoreOf (fst (submit1 B e db b)) = Some (castValue (Fin 0) (castNum (computeScore1 B (b_timeTaken b))))"
    and "map score (added db (snd (submit1 B e db b))) = [castValue (Fin 0) (castNum (computeScore1 B (b_timeTaken b)))]"
proof -
  from assms obtain p where p: "save1 B e b (computeScore1 B (b_timeTaken b)) = Inr p"
    and r: "submit1 B e db b = (\<lparr>status = 201, success = True, payload = Doc p\<rparr>, db @ [p])"
    by (rule submit1_success)
  from r save1_Inr(6) [OF p]
  show "scoreOf (fst (submit1 B e db b)) = Some (castValue (Fin 0) (castNum (computeScore1 B (b_timeTaken b))))"
    by (simp add: scoreOf_def)
  from r save1_Inr(6) [OF p]
  show "map score (added db (snd (submit1 B e db b))) = [castValue (Fin 0) (castNum (computeScore1 B (b_timeTaken b)))]"
    by (simp add: added_def)
qed

lemma submit2_score:
  assumes "success (fst (submit2 B e db b))"
  shows "scoreOf (fst (submit2 B e db b))
          = score2 (Some (castValue (Fin 0) (castNumber B (b_timeTaken b))))"
    and "map (\<lambda>p. Some (score p)) (added db (snd (submit2 B e db b)))
          = [score2 (Some (castValue (Fin 0) (castNumber B (b_timeTaken b))))]"
proof -
  from assms obtain p where p: "save2 B e b = Inr p"
    and r: "submit2 B e db b =
            (\<lparr>status = 201, success = True,
              payload = View \<lparr>c_id = pid p, c_name = name p, c_department = department p,
                              c_timeTaken = timeTaken p, c_score = score p,
                              c_createdAt = createdAt p\<rparr>\<rparr>,
             db @ [p])"
    by (rule submit2_success)
  from r save2_Inr(6) [OF p]
  show "scoreOf (fst (submit2 B e db b))
          = score2 (Some (castValue (Fin 0) (castNumber B (b_timeTaken b))))"
    by (simp add: scoreOf_def)
  from r save2_Inr(6) [OF p]
  show "map (\<lambda>p. Some (score p)) (added db (snd (submit2 B e db b)))
          = [score2 (Some (castValue (Fin 0) (castNumber B (b_timeTaken b))))]"
    by (simp add: added_def)
qed

section \<open>Submission: concrete runs and required fields\<close>

lemmas eval_defs = sampleBody_def sampleEnv_def sampleBuiltins_def utf16_def stored_def
  castValue_def castOption_def castNum_def computeScore1_def
  score_at_100 score_at_250 score_at_0 score_at_600 score_at_601 score_at_minus_5
  requiredString_def optionalString_def requiredNumber_def maxlength_def minNumber_def
  maxNumber_def trimSetter_def js_trim_def js_whitespace_def

lemma run1_alice_100:
  "submit1 sampleBuiltins sampleEnv [] (sampleBody ''Alice'' (JNum (Fin 100))) =
     (\<lparr>status = 201, success = True, payload = Doc (stored 1 750 100)\<rparr>, [stored 1 750 100])"
  by (simp add: submit1_def save1_def validate1_def eval_defs)

lemma run2_alice_100:
  "submit2 sampleBuiltins sampleEnv [] (sampleBody ''Alice'' (JNum (Fin 100))) =
     (\<lparr>status = 201, success = True,
       payload = View \<lparr>c_id = 1, c_name = utf16 ''Alice'', c_department = utf16 ''Eng'',
                       c_timeTaken = Fin 100, c_score = Fin 750, c_createdAt = 1000\<rparr>\<rparr>,
      [stored 1 750 100])"
  by (simp add: submit2_def save2_def validate2_def eval_defs)

lemma run1_bob_100:
  "submit1 sampleBuiltins sampleEnv [stored 7 900 0]
     ((sampleBody ''Bob'' (JNum (Fin 100)))\<lparr>b_score := JNum (Fin 9999)\<rparr>) =
     (\<lparr>status = 201, success = True, payload = Doc ((stored 1 750 100)\<lparr>name := utf16 ''Bob''\<rparr>)\<rparr>,
      [stored 7 900 0, (stored 1 750 100)\<lparr>name := utf16 ''Bob''\<rparr>])"
  by (simp add: submit1_def save1_def validate1_def eval_defs)

lemma run2_bob_100:
  "submit2 sampleBuiltins sampleEnv [stored 7 900 0]
     ((sampleBody ''Bob'' (JNum (Fin 100)))\<lparr>b_score := JNum (Fin 9999)\<rparr>) =
     (\<lparr>status = 201, success = True,
       payload = View \<lparr>c_id = 1, c_name = utf16 ''Bob'', c_department = utf16 ''Eng'',
                       c_timeTaken = Fin 100, c_score = Fin 750, c_createdAt = 1000\<rparr>\<rparr>,
      [stored 7 900 0, (stored 1 750 100)\<lparr>name := utf16 ''Bob''\<rparr>])"
  by (simp add: submit2_def save2_def validate2_def eval_defs)

text \<open>
  C4. A submission whose name, department or timeTaken is missing is answered with
  HTTP 400 and success:false, and the collection is unchanged, in both variants. A
  successful call answers 201 and adds exactly one record to the collection; a call
  that does not succeed adds none.
\<close>

theorem C4_missing_fields:
  "(b_name b = JUndefined \<or> b_department b = JUndefined \<or> b_timeTaken b = JUndefined \<longrightarrow>
      submit1 B e db b =
        (\<lparr>status = 400, success = False,
          payload = ErrorText ''Missing required fields: name, department or timeTaken''\<rparr>, db)
      \<and> submit2 B e db b =
        (\<lparr>status = 400, success = False, payload = ErrorText ''Missing required fields''\<rparr>, db))
   \<and> (success (fst (submit1 B e db b)) \<longrightarrow>
        status (fst (submit1 B e db b)) = 201
        \<and> (\<exists>p. snd (submit1 B e db b) = db @ [p] \<and> payload (fst (submit1 B e db b)) = Doc p))
   \<and> (success (fst (submit2 B e db b)) \<longrightarrow>
        status (fst (submit2 B e db b)) = 201
        \<and> (\<exists>p. snd (submit2 B e db b) = db @ [p]))
   \<and> (\<not> success (fst (submit1 B e db b)) \<longrightarrow> snd (submit1 B e db b) = db)
   \<and> (\<not> success (fst (submit2 B e db b)) \<longrightarrow> snd (submit2 B e db b) = db)"
proof -
  have missing: "b_name b = JUndefined \<or> b_department b = JUndefined \<or> b_timeTaken b = JUndefined
      \<Longrightarrow> \<not> truthy (b_name b) \<or> \<not> truthy (b_department b) \<or> b_timeTaken b = JUndefined"
    by auto
  have a: "b_name b = JUndefined \<or> b_department b = JUndefined \<or> b_timeTaken b = JUndefined \<longrightarrow>
      submit1 B e db b =
        (\<lparr>status = 400, success = False,
          payload = ErrorText ''Missing required fields: name, department or timeTaken''\<rparr>, db)
      \<and> submit2 B e db b =
        (\<lparr>status = 400, success = False, payload = ErrorText ''Missing required fields''\<rparr>, db)"
    using submit1_400 [OF missing] submit2_400 [OF missing] by blast
  have b: "success (fst (submit1 B e db b)) \<longrightarrow>
        status (fst (submit1 B e db b)) = 201
        \<and> (\<exists>p. snd (submit1 B e db b) = db @ [p] \<and> payload (fst (submit1 B e db b)) = Doc p)"
  proof
    assume "success (fst (submit1 B e db b))"
    then obtain p where
      "submit1 B e db b = (\<lparr>status = 201, success = True, payload = Doc p\<rparr>, db @ [p])"
      by (rule submit1_success)
    then show "status (fst (submit1 B e db b)) = 201
        \<and> (\<exists>p. snd (submit1 B e db b) = db @ [p] \<and> payload (fst (submit1 B e db b)) = Doc p)"
      by simp
  qed
  have c: "success (fst (submit2 B e db b)) \<longrightarrow>
        status (fst (submit2 B e db b)) = 201 \<and> (\<exists>p. snd (submit2 B e db b) = db @ [p])"
  proof
    assume "success (fst (submit2 B e db b))"
    then obtain p where
      "submit2 B e db b =
            (\<lparr>status = 201, success = True,
              payload = View \<lparr>c_id = pid p, c_name = name p, c_department = department p,
                              c_timeTaken = timeTaken p, c_score = score p,
                              c_createdAt = createdAt p\<rparr>\<rparr>,
             db @ [p])"
      by (rule submit2_success)
    then show "status (fst (submit2 B e db b)) = 201 \<and> (\<exists>p. snd (submit2 B e db b) = db @ [p])"
      by simp
  qed
  from a b c submit1_failure [of B e db b] submit2_failure [of B e db b]
  show ?thesis by blast
qed

theorem C4_missing_fields_witness:
  "b_timeTaken (sampleBody ''Alice'' JUndefined) = JUndefined
   \<and> submit1 sampleBuiltins sampleEnv [stored 7 900 0] (sampleBody ''Alice'' JUndefined) =
        (\<lparr>status = 400, success = False,
          payload = ErrorText ''Missing required fields: name, department or timeTaken''\<rparr>,
         [stored 7 900 0])
   \<and> submit2 sampleBuiltins sampleEnv [stored 7 900 0] (sampleBody ''Alice'' JUndefined) =
        (\<lparr>status = 400, success = False, payload = ErrorText ''Missing required fields''\<rparr>,
         [stored 7 900 0])
   \<and> success (fst (submit1 sampleBuiltins sampleEnv [] (sampleBody ''Alice'' (JNum (Fin 100)))))
   \<and> status (fst (submit1 sampleBuiltins sampleEnv [] (sampleBody ''Alice'' (JNum (Fin 100))))) = 201
   \<and> snd (submit1 sampleBuiltins sampleEnv [] (sampleBody ''Alice'' (JNum (Fin 100)))) = [] @ [stored 1 750 100]
   \<and> success (fst (submit2 sampleBuiltins sampleEnv [] (sampleBody ''Alice'' (JNum (Fin 100)))))
   \<and> status (fst (submit2 sampleBuiltins sampleEnv [] (sampleBody ''Alice'' (JNum (Fin 100))))) = 201
   \<and> snd (submit2 sampleBuiltins sampleEnv [] (sampleBody ''Alice'' (JNum (Fin 100)))) = [] @ [stored 1 750 100]"
proof -
  have m: "b_timeTaken (sampleBody ''Alice'' JUndefined) = JUndefined"
    by (simp add: sampleBody_def)
  have s1: "success (fst (submit1 sampleBuiltins sampleEnv [] (sampleBody ''Alice'' (JNum (Fin 100)))))"
    and s2: "success (fst (submit2 sampleBuiltins sampleEnv [] (sampleBody ''Alice'' (JNum (Fin 100)))))"
    by (simp_all add: run1_alice_100 run2_alice_100)
  show ?thesis
    using m s1 s2
      C4_missing_fields [of "sampleBody ''Alice'' JUndefined" sampleBuiltins sampleEnv "[stored 7 900 0]"]
      C4_missing_fields [of "sampleBody ''Alice'' (JNum (Fin 100))" sampleBuiltins sampleEnv "[]"]
    by (simp add: run1_alice_100 run2_alice_100)
qed

section \<open>Submission: the score depends on timeTaken alone\<close>

lemma castNum_Cast: "castNum n = Cast r \<longleftrightarrow> n = Some r"
  by (cases n) (simp_all add: castNum_def)

lemma submit1_score_engine:
  assumes "success (fst (submit1 B e db b))"
  shows "scoreOf (fst (submit1 B e db b)) = computeScore1 B (b_timeTaken b)"
proof -
  from assms obtain p where p: "save1 B e b (computeScore1 B (b_timeTaken b)) = Inr p"
    by (rule submit1_success)
  from validate1_Nil(4) [OF save1_Inr(1) [OF p]]
  obtain r where "computeScore1 B (b_timeTaken b) = Some r"
    by (auto simp: castNum_Cast)
  with submit1_score(1) [OF assms] show ?thesis
    by (simp add: castNum_def castValue_def)
qed

lemma submit2_score_value:
  assumes "success (fst (submit2 B e db b))"
  obtains s where "score2 (Some (castValue (Fin 0) (castNumber B (b_timeTaken b)))) = Some s"
    and "scoreOf (fst (submit2 B e db b)) = Some s"
    and "map score (added db (snd (submit2 B e db b))) = [s]"
proof -
  from assms obtain p where p: "save2 B e b = Inr p"
    and r: "submit2 B e db b =
            (\<lparr>status = 201, success = True,
              payload = View \<lparr>c_id = pid p, c_name = name p, c_department = department p,
                              c_timeTaken = timeTaken p, c_score = score p,
                              c_createdAt = createdAt p\<rparr>\<rparr>,
             db @ [p])"
    by (rule submit2_success)
  from save2_Inr(6) [OF p]
  have "score2 (Some (castValue (Fin 0) (castNumber B (b_timeTaken b)))) = Some (score p)"
    by simp
  moreover from r have "scoreOf (fst (submit2 B e db b)) = Some (score p)"
    by (simp add: scoreOf_def)
  moreover from r have "map score (added db (snd (submit2 B e db b))) = [score p]"
    by (simp add: added_def)
  ultimately show ?thesis by (rule that)
qed

lemma submit2_score_engine:
  assumes "success (fst (submit2 B e db b))"
  shows "\<exists>t. castNumber B (b_timeTaken b) = Cast t \<and> Fin 0 \<le> t \<and> t \<le> Fin 600
           \<and> scoreOf (fst (submit2 B e db b)) = score2 (Some t)"
proof -
  from assms obtain p where p: "save2 B e b = Inr p"
    by (rule submit2_success)
  from validate2_Nil(3) [OF save2_Inr(1) [OF p]]
  obtain t where t: "castNumber B (b_timeTaken b) = Cast t" "Fin 0 \<le> t" "t \<le> Fin 600"
    by blast
  with submit2_score(1) [OF assms] show ?thesis
    by (simp add: castValue_def)
qed

text \<open>
  C3. The score of a submission depends on timeTaken alone. A \<open>score\<close> field in the
  request body changes nothing in the response or the collection; two successful
  requests with the same timeTaken report and persist the same score, whatever else
  differs (the other fields, the collection, the clock); and the reported score is the
  score expression of the variant applied to timeTaken.
\<close>

theorem C3_score_from_timeTaken_only:
  "submit1 B e db (b\<lparr>b_score := x\<rparr>) = submit1 B e db b
   \<and> submit2 B e db (b\<lparr>b_score := x\<rparr>) = submit2 B e db b
   \<and> (b_timeTaken b = b_timeTaken b' \<longrightarrow>
        success (fst (submit1 B e db b)) \<longrightarrow> success (fst (submit1 B e' db' b')) \<longrightarrow>
        scoreOf (fst (submit1 B e db b)) = scoreOf (fst (submit1 B e' db' b'))
        \<and> map score (added db (snd (submit1 B e db b)))
            = map score (added db' (snd (submit1 B e' db' b'))))
   \<and> (b_timeTaken b = b_timeTaken b' \<longrightarrow>
        success (fst (submit2 B e db b)) \<longrightarrow> success (fst (submit2 B e' db' b')) \<longrightarrow>
        scoreOf (fst (submit2 B e db b)) = scoreOf (fst (submit2 B e' db' b'))
        \<and> map score (added db (snd (submit2 B e db b)))
            = map score (added db' (snd (submit2 B e' db' b'))))
   \<and> (success (fst (submit1 B e db b)) \<longrightarrow>
        scoreOf (fst (submit1 B e db b)) = computeScore1 B (b_timeTaken b))
   \<and> (success (fst (submit2 B e db b)) \<longrightarrow>
        (\<exists>t. castNumber B (b_timeTaken b) = Cast t
           \<and> scoreOf (fst (submit2 B e db b)) = score2 (Some t)))"
proof -
  have a: "b_timeTaken b = b_timeTaken b' \<longrightarrow>
        success (fst (submit1 B e db b)) \<longrightarrow> success (fst (submit1 B e' db' b')) \<longrightarrow>
        scoreOf (fst (submit1 B e db b)) = scoreOf (fst (submit1 B e' db' b'))
        \<and> map score (added db (snd (submit1 B e db b)))
            = map score (added db' (snd (submit1 B e' db' b')))"
    by (simp add: submit1_score)
  have b: "b_timeTaken b = b_timeTaken b' \<longrightarrow>
        success (fst (submit2 B e db b)) \<longrightarrow> success (fst (submit2 B e' db' b')) \<longrightarrow>
        scoreOf (fst (submit2 B e db b)) = scoreOf (fst (submit2 B e' db' b'))
        \<and> map score (added db (snd (submit2 B e db b)))
            = map score (added db' (snd (submit2 B e' db' b')))"
  proof (intro impI)
    assume t: "b_timeTaken b = b_timeTaken b'"
      and s: "success (fst (submit2 B e db b))" and s': "success (fst (submit2 B e' db' b'))"
    from s obtain v where v:
      "score2 (Some (castValue (Fin 0) (castNumber B (b_timeTaken b)))) = Some v"
      "scoreOf (fst (submit2 B e db b)) = Some v"
      "map score (added db (snd (submit2 B e db b))) = [v]"
      by (rule submit2_score_value)
    from s' obtain v' where v':
      "score2 (Some (castValue (Fin 0) (castNumber B (b_timeTaken b')))) = Some v'"
      "scoreOf (fst (submit2 B e' db' b')) = Some v'"
      "map score (added db' (snd (submit2 B e' db' b'))) = [v']"
      by (rule submit2_score_value)
    from v(1) v'(1) t have "v = v'" by simp
    with v v' show "scoreOf (fst (submit2 B e db b)) = scoreOf (fst (submit2 B e' db' b'))
        \<and> map score (added db (snd (submit2 B e db b)))
            = map score (added db' (snd (submit2 B e' db' b')))"
      by simp
  qed
  have c: "success (fst (submit2 B e db b)) \<longrightarrow>
        (\<exists>t. castNumber B (b_timeTaken b) = Cast t
           \<and> scoreOf (fst (submit2 B e db b)) = score2 (Some t))"
    using submit2_score_engine [of B e db b] by blast
  from a b c submit1_score_engine [of B e db b]
    submit1_ignores_score [where B = B and e = e and db = db and b = b and x = x]
    submit2_ignores_score [where B = B and e = e and db = db and b = b and x = x]
  show ?thesis by blast
qed

theorem C3_score_from_timeTaken_only_witness:
  "b_timeTaken (sampleBody ''Alice'' (JNum (Fin 100)))
     = b_timeTaken ((sampleBody ''Bob'' (JNum (Fin 100)))\<lparr>b_score := JNum (Fin 9999)\<rparr>)
   \<and> success (fst (submit1 sampleBuiltins sampleEnv [] (sampleBody ''Alice'' (JNum (Fin 100)))))
   \<and> success (fst (submit1 sampleBuiltins sampleEnv [stored 7 900 0]
         ((sampleBody ''Bob'' (JNum (Fin 100)))\<lparr>b_score := JNum (Fin 9999)\<rparr>)))
   \<and> success (fst (submit2 sampleBuiltins sampleEnv [] (sampleBody ''Alice'' (JNum (Fin 100)))))
   \<and> success (fst (submit2 sampleBuiltins sampleEnv [stored 7 900 0]
         ((sampleBody ''Bob'' (JNum (Fin 100)))\<lparr>b_score := JNum (Fin 9999)\<rparr>)))
   \<and> scoreOf (fst (submit1 sampleBuiltins sampleEnv [] (sampleBody ''Alice'' (JNum (Fin 100)))))
       = scoreOf (fst (submit1 sampleBuiltins sampleEnv [stored 7 900 0]
           ((sampleBody ''Bob'' (JNum (Fin 100)))\<lparr>b_score := JNum (Fin 9999)\<rparr>)))
   \<and> scoreOf (fst (submit2 sampleBuiltins sampleEnv [] (sampleBody ''Alice'' (JNum (Fin 100)))))
       = scoreOf (fst (submit2 sampleBuiltins sampleEnv [stored 7 900 0]
           ((sampleBody ''Bob'' (JNum (Fin 100)))\<lparr>b_score := JNum (Fin 9999)\<rparr>)))
   \<and> scoreOf (fst (submit1 sampleBuiltins sampleEnv [stored 7 900 0]
           ((sampleBody ''Bob'' (JNum (Fin 100)))\<lparr>b_score := JNum (Fin 9999)\<rparr>))) = Some (Fin 750)"
proof -
  have t: "b_timeTaken (sampleBody ''Alice'' (JNum (Fin 100)))
     = b_timeTaken ((sampleBody ''Bob'' (JNum (Fin 100)))\<lparr>b_score := JNum (Fin 9999)\<rparr>)"
    by (simp add: sampleBody_def)
  have s: "success (fst (submit1 sampleBuiltins sampleEnv [] (sampleBody ''Alice'' (JNum (Fin 100)))))"
    "success (fst (submit1 sampleBuiltins sampleEnv [stored 7 900 0]
         ((sampleBody ''Bob'' (JNum (Fin 100)))\<lparr>b_score := JNum (Fin 9999)\<rparr>)))"
    "success (fst (submit2 sampleBuiltins sampleEnv [] (sampleBody ''Alice'' (JNum (Fin 100)))))"
    "success (fst (submit2 sampleBuiltins sampleEnv [stored 7 900 0]
         ((sampleBody ''Bob'' (JNum (Fin 100)))\<lparr>b_score := JNum (Fin 9999)\<rparr>)))"
    by (simp_all add: run1_alice_100 run1_bob_100 run2_alice_100 run2_bob_100)
  have v: "scoreOf (fst (submit1 sampleBuiltins sampleEnv [] (sampleBody ''Alice'' (JNum (Fin 100))))) = Some (Fin 750)"
    by (simp add: run1_alice_100 scoreOf_def stored_def)
  from t s v
    C3_score_from_timeTaken_only [where B = sampleBuiltins and e = sampleEnv and db = "[]"
      and b = "sampleBody ''Alice'' (JNum (Fin 100))" and x = "JNum (Fin 9999)"
      and b' = "(sampleBody ''Bob'' (JNum (Fin 100)))\<lparr>b_score := JNum (Fin 9999)\<rparr>"
      and e' = sampleEnv and db' = "[stored 7 900 0]"]
  show ?thesis by simp
qed

section \<open>Submission: the score within the time budget\<close>

lemma score1_NaN: "score1 None = None"
  by (simp add: score1_def)

lemma cast_ToNumber:
  assumes "castNumber B v = Cast t" and "computeScore1 B v \<noteq> None"
  shows "ToNumber B v = Some t"
proof (cases v)
  case (JStr s)
  with assms(1) show ?thesis by (auto split: if_splits option.splits)
next
  case (JObject i)
  with assms(2) show ?thesis by (simp add: computeScore1_def score1_NaN)
qed (use assms(1) in auto)

lemma submit1_ToNumber:
  assumes "success (fst (submit1 B e db b))" and "castNumber B (b_timeTaken b) = Cast t"
  shows "ToNumber B (b_timeTaken b) = Some t"
proof -
  from assms(1) obtain p where p: "save1 B e b (computeScore1 B (b_timeTaken b)) = Inr p"
    by (rule submit1_success)
  from validate1_Nil(4) [OF save1_Inr(1) [OF p]]
  have "computeScore1 B (b_timeTaken b) \<noteq> None" by (auto simp: castNum_Cast)
  with assms(2) show ?thesis by (rule cast_ToNumber)
qed

lemma submit1_reports:
  assumes "success (fst (submit1 B e db b))" and "castNumber B (b_timeTaken b) = Cast t"
    and "score1 (Some t) = Some s"
  shows "scoreOf (fst (submit1 B e db b)) = Some s"
    and "map score (added db (snd (submit1 B e db b))) = [s]"
proof -
  from submit1_ToNumber [OF assms(1,2)] assms(3)
  have c: "computeScore1 B (b_timeTaken b) = Some s" by (simp add: computeScore1_def)
  from submit1_score(1) [OF assms(1)] c
  show "scoreOf (fst (submit1 B e db b)) = Some s" by (simp add: castNum_def castValue_def)
  from submit1_score(2) [OF assms(1)] c
  show "map score (added db (snd (submit1 B e db b))) = [s]" by (simp add: castNum_def castValue_def)
qed

lemma submit2_reports:
  assumes "success (fst (submit2 B e db b))" and "castNumber B (b_timeTaken b) = Cast t"
    and "score2 (Some t) = Some s"
  shows "scoreOf (fst (submit2 B e db b)) = Some s"
    and "map score (added db (snd (submit2 B e db b))) = [s]"
proof -
  from assms(1) obtain v where v:
    "score2 (Some (castValue (Fin 0) (castNumber B (b_timeTaken b)))) = Some v"
    "scoreOf (fst (submit2 B e db b)) = Some v"
    "map score (added db (snd (submit2 B e db b))) = [v]"
    by (rule submit2_score_value)
  from v(1) assms(2,3) have "v = s" by (simp add: castValue_def)
  with v show "scoreOf (fst (submit2 B e db b)) = Some s"
    and "map score (added db (snd (submit2 B e db b))) = [s]" by simp_all
qed

text \<open>The input of the counterexample, \<open>2 ^ - 70\<close>, is a binary64 value.\<close>

lemma tiny_time_binary64: "round64 (1 / 2 ^ 70) = Fin (1 / 2 ^ 70)"
  using round64_dyadic [of "1 / 2 ^ 70" 1 70] by simp

lemma tiny_time_subtraction: "round64 (600 - 1 / 2 ^ 70) = Fin 600"
  using round64_near [of 9 "600 - 1 / 2 ^ 70" "600 * 2 ^ 43"] by simp

lemma tiny_time_product: "round64 (600 * 1.5) = Fin 900"
  using round64_of_int [of 900] by simp

lemma score_at_tiny_time:
  "score1 (Some (Fin (1 / 2 ^ 70))) = Some (Fin 900)"
  "score2 (Some (Fin (1 / 2 ^ 70))) = Some (Fin 900)"
  using score1_Fin [OF tiny_time_subtraction tiny_time_product]
    score2_Fin [OF tiny_time_subtraction tiny_time_product]
  by simp_all

lemma exact_at_tiny_time: "\<lfloor>(600 - 1 / 2 ^ 70) * 1.5 :: real\<rfloor> = 899"
  by (simp add: floor_eq_iff)

lemma run1_tiny_time:
  "submit1 sampleBuiltins sampleEnv [] (sampleBody ''Alice'' (JNum (Fin (1 / 2 ^ 70)))) =
     (\<lparr>status = 201, success = True, payload = Doc (stored 1 900 (1 / 2 ^ 70))\<rparr>,
      [stored 1 900 (1 / 2 ^ 70)])"
  using score_at_tiny_time(1)
  by (simp add: submit1_def save1_def validate1_def eval_defs)

lemma run2_tiny_time:
  "submit2 sampleBuiltins sampleEnv [] (sampleBody ''Alice'' (JNum (Fin (1 / 2 ^ 70)))) =
     (\<lparr>status = 201, success = True,
       payload = View \<lparr>c_id = 1, c_name = utf16 ''Alice'', c_department = utf16 ''Eng'',
                       c_timeTaken = Fin (1 / 2 ^ 70), c_score = Fin 900, c_createdAt = 1000\<rparr>\<rparr>,
      [stored 1 900 (1 / 2 ^ 70)])"
  using score_at_tiny_time(2)
  by (simp add: submit2_def save2_def validate2_def eval_defs)

text \<open>
  C1, as stated, fails: the score is computed in binary64 arithmetic. For the binary64
  value timeTaken = \<open>2 ^ - 70\<close>, which lies in [0, 600], the subtraction
  \<open>600 - timeTaken\<close> rounds to 600, so both variants report and persist the score 900,
  while floor((600 - timeTaken) * 1.5) is 899.
\<close>

theorem C1_score_in_budget_counterexample:
  "round64 (1 / 2 ^ 70) = Fin (1 / 2 ^ 70)
   \<and> (0::real) \<le> 1 / 2 ^ 70 \<and> (1::real) / 2 ^ 70 \<le> 600
   \<and> scoreOf (fst (submit1 sampleBuiltins sampleEnv []
         (sampleBody ''Alice'' (JNum (Fin (1 / 2 ^ 70)))))) = Some (Fin 900)
   \<and> scoreOf (fst (submit2 sampleBuiltins sampleEnv []
         (sampleBody ''Alice'' (JNum (Fin (1 / 2 ^ 70)))))) = Some (Fin 900)
   \<and> snd (submit1 sampleBuiltins sampleEnv [] (sampleBody ''Alice'' (JNum (Fin (1 / 2 ^ 70)))))
       = [stored 1 900 (1 / 2 ^ 70)]
   \<and> real_of_int \<lfloor>(600 - 1 / 2 ^ 70) * 1.5 :: real\<rfloor> = 899"
proof -
  have a: "(0::real) \<le> 1 / 2 ^ 70 \<and> (1::real) / 2 ^ 70 \<le> 600" by simp
  have b: "scoreOf (fst (submit1 sampleBuiltins sampleEnv []
         (sampleBody ''Alice'' (JNum (Fin (1 / 2 ^ 70)))))) = Some (Fin 900)"
    unfolding run1_tiny_time by (simp add: scoreOf_def stored_def)
  have c: "scoreOf (fst (submit2 sampleBuiltins sampleEnv []
         (sampleBody ''Alice'' (JNum (Fin (1 / 2 ^ 70)))))) = Some (Fin 900)"
    unfolding run2_tiny_time by (simp add: scoreOf_def)
  have d: "snd (submit1 sampleBuiltins sampleEnv [] (sampleBody ''Alice'' (JNum (Fin (1 / 2 ^ 70)))))
       = [stored 1 900 (1 / 2 ^ 70)]"
    unfolding run1_tiny_time by simp
  have e: "real_of_int \<lfloor>(600 - 1 / 2 ^ 70) * 1.5 :: real\<rfloor> = 899"
    unfolding exact_at_tiny_time by simp
  from tiny_time_binary64 a b c d e show ?thesis by blast
qed

lemma quantum_small:
  assumes "\<bar>x\<bar> \<le> 1023"
  shows "quantum x \<le> 1 / 2 ^ 43"
proof -
  from assms have "\<bar>x\<bar> \<le> \<bar>1023::real\<bar>" by simp
  then have "quantum x \<le> quantum 1023" by (rule quantum_mono)
  also have "quantum 1023 = 2 ^ 9 / 2 ^ 52" by (rule quantum_ge1) simp_all
  also have "\<dots> = (1::real) / 2 ^ 43" by simp
  finally show ?thesis .
qed

lemma rounding_small:
  assumes "\<bar>x\<bar> \<le> 1023" and "round64 x = Fin a"
  shows "\<bar>a - x\<bar> \<le> 1 / 2 ^ 44"
proof -
  from assms(1) have "\<bar>x\<bar> \<le> 2 ^ 53" by simp
  then obtain a' where a': "round64 x = Fin a'" "\<bar>a' - x\<bar> \<le> quantum x / 2"
    by (rule round64_error)
  with assms(2) have "\<bar>a - x\<bar> \<le> quantum x / 2" by simp
  with quantum_small [OF assms(1)] show ?thesis by simp
qed

lemma floor_close:
  fixes b y :: real
  assumes "\<bar>b - y\<bar> \<le> 1"
  shows "\<bar>\<lfloor>b\<rfloor> - \<lfloor>y\<rfloor>\<bar> \<le> 1"
proof -
  from assms have "b \<le> y + 1" "y \<le> b + 1" by linarith+
  then have "\<lfloor>b\<rfloor> \<le> \<lfloor>y + 1\<rfloor>" "\<lfloor>y\<rfloor> \<le> \<lfloor>b + 1\<rfloor>" by (simp_all only: floor_mono)
  then show ?thesis by simp
qed

lemma score_within_one:
  assumes "0 \<le> t" and "t \<le> 600"
    and a: "round64 (600 - t) = Fin a" and b: "round64 (a * 1.5) = Fin b"
  shows "\<bar>\<lfloor>b\<rfloor> - \<lfloor>(600 - t) * 1.5\<rfloor>\<bar> \<le> 1"
proof -
  from assms(1,2) have x: "\<bar>600 - t\<bar> \<le> 1023" by simp
  from rounding_small [OF x a] have ea: "\<bar>a - (600 - t)\<bar> \<le> 1 / 2 ^ 44" .
  have s: "(1::real) / 2 ^ 44 \<le> 1 / 4" by simp
  from ea s have ea': "\<bar>a - (600 - t)\<bar> \<le> 1 / 4" by (rule order_trans)
  with assms(1,2) have "- 1 \<le> a" "a \<le> 601" by linarith+
  then have "\<bar>a * 1.5\<bar> \<le> 1023" by (simp add: abs_le_iff)
  from rounding_small [OF this b] have eb: "\<bar>b - a * 1.5\<bar> \<le> 1 / 2 ^ 44" .
  from eb s have eb': "\<bar>b - a * 1.5\<bar> \<le> 1 / 4" by (rule order_trans)
  from ea' eb' have "\<bar>b - (600 - t) * 1.5\<bar> \<le> 1"
    unfolding abs_le_iff by (simp add: algebra_simps)
  then show ?thesis by (rule floor_close)
qed

lemma submit1_sample_succeeds:
  assumes "score1 (Some t) = Some s"
  shows "submit1 B (e\<lparr>storageOk := True\<rparr>) db (sampleBody ''Alice'' (JNum t))
    = (\<lparr>status = 201, success = True,
        payload = Doc \<lparr>pid = newId e, name = utf16 ''Alice'', department = utf16 ''Eng'',
                        email = None, timeTaken = t, score = s, createdAt = now e,
                        updatedAt = now e\<rparr>\<rparr>,
       db @ [\<lparr>pid = newId e, name = utf16 ''Alice'', department = utf16 ''Eng'',
               email = None, timeTaken = t, score = s, createdAt = now e,
               updatedAt = now e\<rparr>])"
  using assms
  by (simp add: submit1_def save1_def validate1_def sampleBody_def utf16_def castValue_def
      castOption_def castNum_def computeScore1_def requiredString_def optionalString_def
      requiredNumber_def)

lemma submit2_sample_succeeds:
  assumes "0 \<le> t" and "t \<le> 600" and "score2 (Some (Fin t)) = Some s"
  shows "submit2 B (e\<lparr>storageOk := True\<rparr>) db (sampleBody ''Alice'' (JNum (Fin t)))
    = (\<lparr>status = 201, success = True,
        payload = View \<lparr>c_id = newId e, c_name = utf16 ''Alice'', c_department = utf16 ''Eng'',
                        c_timeTaken = Fin t, c_score = s, c_createdAt = now e\<rparr>\<rparr>,
       db @ [\<lparr>pid = newId e, name = utf16 ''Alice'', department = utf16 ''Eng'',
               email = None, timeTaken = Fin t, score = s, createdAt = now e,
               updatedAt = now e\<rparr>])"
  using assms
  by (simp add: submit2_def save2_def validate2_def sampleBody_def utf16_def castValue_def
      castNum_def requiredString_def maxlength_def requiredNumber_def minNumber_def
      maxNumber_def trimSetter_def js_trim_def js_whitespace_def)

text \<open>
  C1, amended. For every timeTaken in [0, 600], the score both variants compute is the
  floor of (600 - timeTaken) * 1.5 as binary64 arithmetic evaluates it, the subtraction
  and the product each rounded to the nearest binary64 value, and it is at least 0;
  this is the score a successful submission reports and persists, and a well-formed
  submission with such a timeTaken succeeds when storage is up. The score differs from
  floor((600 - timeTaken) * 1.5) over the reals by at most 1, and equals it whenever
  neither operation rounds, in particular for every whole number of seconds.
\<close>

theorem C1_score_in_budget:
  assumes "0 \<le> t" and "t \<le> 600"
  shows "\<exists>a b. round64 (600 - t) = Fin a \<and> round64 (a * 1.5) = Fin b \<and> 0 \<le> \<lfloor>b\<rfloor>
     \<and> score1 (Some (Fin t)) = Some (Fin (real_of_int \<lfloor>b\<rfloor>))
     \<and> score2 (Some (Fin t)) = Some (Fin (real_of_int \<lfloor>b\<rfloor>))
     \<and> (castNumber B (b_timeTaken r) = Cast (Fin t) \<longrightarrow> success (fst (submit1 B e db r)) \<longrightarrow>
          scoreOf (fst (submit1 B e db r)) = Some (Fin (real_of_int \<lfloor>b\<rfloor>))
          \<and> map score (added db (snd (submit1 B e db r))) = [Fin (real_of_int \<lfloor>b\<rfloor>)])
     \<and> (castNumber B (b_timeTaken r) = Cast (Fin t) \<longrightarrow> success (fst (submit2 B e db r)) \<longrightarrow>
          scoreOf (fst (submit2 B e db r)) = Some (Fin (real_of_int \<lfloor>b\<rfloor>))
          \<and> map score (added db (snd (submit2 B e db r))) = [Fin (real_of_int \<lfloor>b\<rfloor>)])
     \<and> (round64 (600 - t) = Fin (600 - t) \<longrightarrow>
          round64 ((600 - t) * 1.5) = Fin ((600 - t) * 1.5) \<longrightarrow>
          \<lfloor>b\<rfloor> = \<lfloor>(600 - t) * 1.5\<rfloor>)
     \<and> (t = real_of_int k \<longrightarrow> \<lfloor>b\<rfloor> = \<lfloor>(600 - t) * 1.5\<rfloor>)
     \<and> \<bar>\<lfloor>b\<rfloor> - \<lfloor>(600 - t) * 1.5\<rfloor>\<bar> \<le> 1
     \<and> success (fst (submit1 B (e\<lparr>storageOk := True\<rparr>) db (sampleBody ''Alice'' (JNum (Fin t)))))
     \<and> scoreOf (fst (submit1 B (e\<lparr>storageOk := True\<rparr>) db (sampleBody ''Alice'' (JNum (Fin t)))))
         = Some (Fin (real_of_int \<lfloor>b\<rfloor>))
     \<and> success (fst (submit2 B (e\<lparr>storageOk := True\<rparr>) db (sampleBody ''Alice'' (JNum (Fin t)))))
     \<and> scoreOf (fst (submit2 B (e\<lparr>storageOk := True\<rparr>) db (sampleBody ''Alice'' (JNum (Fin t)))))
         = Some (Fin (real_of_int \<lfloor>b\<rfloor>))"
proof -
  from assms obtain a b where ab: "round64 (600 - t) = Fin a" "round64 (a * 1.5) = Fin b"
    and f: "0 \<le> \<lfloor>b\<rfloor>"
    and s1: "score1 (Some (Fin t)) = Some (Fin (real_of_int \<lfloor>b\<rfloor>))"
    and s2: "score2 (Some (Fin t)) = Some (Fin (real_of_int \<lfloor>b\<rfloor>))"
    by (rule score_in_budget)
  have v1: "castNumber B (b_timeTaken r) = Cast (Fin t) \<longrightarrow> success (fst (submit1 B e db r)) \<longrightarrow>
          scoreOf (fst (submit1 B e db r)) = Some (Fin (real_of_int \<lfloor>b\<rfloor>))
          \<and> map score (added db (snd (submit1 B e db r))) = [Fin (real_of_int \<lfloor>b\<rfloor>)]"
    using submit1_reports [where B = B and e = e and db = db and b = r, OF _ _ s1] by blast
  have v2: "castNumber B (b_timeTaken r) = Cast (Fin t) \<longrightarrow> success (fst (submit2 B e db r)) \<longrightarrow>
          scoreOf (fst (submit2 B e db r)) = Some (Fin (real_of_int \<lfloor>b\<rfloor>))
          \<and> map score (added db (snd (submit2 B e db r))) = [Fin (real_of_int \<lfloor>b\<rfloor>)]"
    using submit2_reports [where B = B and e = e and db = db and b = r, OF _ _ s2] by blast
  have x: "round64 (600 - t) = Fin (600 - t) \<longrightarrow>
          round64 ((600 - t) * 1.5) = Fin ((600 - t) * 1.5) \<longrightarrow>
          \<lfloor>b\<rfloor> = \<lfloor>(600 - t) * 1.5\<rfloor>"
  proof (intro impI)
    assume p: "round64 (600 - t) = Fin (600 - t)"
      and q: "round64 ((600 - t) * 1.5) = Fin ((600 - t) * 1.5)"
    from score_exact(1) [OF p q] s2 show "\<lfloor>b\<rfloor> = \<lfloor>(600 - t) * 1.5\<rfloor>" by simp
  qed
  have w: "t = real_of_int k \<longrightarrow> \<lfloor>b\<rfloor> = \<lfloor>(600 - t) * 1.5\<rfloor>"
  proof
    assume k: "t = real_of_int k"
    with assms have "0 \<le> k" "k \<le> 600" by simp_all
    from score_whole_seconds(1) [OF this] s2 k
    show "\<lfloor>b\<rfloor> = \<lfloor>(600 - t) * 1.5\<rfloor>" by simp
  qed
  note n = score_within_one [OF assms ab]
  have g1: "success (fst (submit1 B (e\<lparr>storageOk := True\<rparr>) db (sampleBody ''Alice'' (JNum (Fin t)))))"
    and g2: "scoreOf (fst (submit1 B (e\<lparr>storageOk := True\<rparr>) db (sampleBody ''Alice'' (JNum (Fin t)))))
         = Some (Fin (real_of_int \<lfloor>b\<rfloor>))"
    unfolding submit1_sample_succeeds [OF s1] by (simp_all add: scoreOf_def)
  have g3: "success (fst (submit2 B (e\<lparr>storageOk := True\<rparr>) db (sampleBody ''Alice'' (JNum (Fin t)))))"
    and g4: "scoreOf (fst (submit2 B (e\<lparr>storageOk := True\<rparr>) db (sampleBody ''Alice'' (JNum (Fin t)))))
         = Some (Fin (real_of_int \<lfloor>b\<rfloor>))"
    unfolding submit2_sample_succeeds [OF assms s2] by (simp_all add: scoreOf_def)
  show ?thesis
    by (rule exI [of _ a], rule exI [of _ b]) (intro conjI ab f s1 s2 v1 v2 x w n g1 g2 g3 g4)
qed

theorem C1_score_in_budget_witness:
  "(0::real) \<le> 100 \<and> (100::real) \<le> 600
   \<and> castNumber sampleBuiltins (b_timeTaken (sampleBody ''Alice'' (JNum (Fin 100)))) = Cast (Fin 100)
   \<and> success (fst (submit1 sampleBuiltins sampleEnv [] (sampleBody ''Alice'' (JNum (Fin 100)))))
   \<and> success (fst (submit2 sampleBuiltins sampleEnv [] (sampleBody ''Alice'' (JNum (Fin 100)))))
   \<and> (100::real) = real_of_int 100
   \<and> scoreOf (fst (submit1 sampleBuiltins sampleEnv [] (sampleBody ''Alice'' (JNum (Fin 100)))))
       = Some (Fin (real_of_int \<lfloor>(600 - 100) * 1.5 :: real\<rfloor>))
   \<and> scoreOf (fst (submit2 sampleBuiltins sampleEnv [] (sampleBody ''Alice'' (JNum (Fin 100)))))
       = Some (Fin (real_of_int \<lfloor>(600 - 100) * 1.5 :: real\<rfloor>))
   \<and> map score (added [] (snd (submit1 sampleBuiltins sampleEnv []
         (sampleBody ''Alice'' (JNum (Fin 100)))))) = [Fin 750]
   \<and> map score (added [] (snd (submit2 sampleBuiltins sampleEnv []
         (sampleBody ''Alice'' (JNum (Fin 100)))))) = [Fin 750]"
proof -
  have h: "(0::real) \<le> 100" "(100::real) \<le> 600" by simp_all
  have c: "castNumber sampleBuiltins (b_timeTaken (sampleBody ''Alice'' (JNum (Fin 100)))) = Cast (Fin 100)"
    by (simp add: sampleBody_def)
  have s: "success (fst (submit1 sampleBuiltins sampleEnv [] (sampleBody ''Alice'' (JNum (Fin 100)))))"
    "success (fst (submit2 sampleBuiltins sampleEnv [] (sampleBody ''Alice'' (JNum (Fin 100)))))"
    by (simp_all add: run1_alice_100 run2_alice_100)
  have k: "(100::real) = real_of_int 100" by simp
  have v: "\<lfloor>(600 - 100) * 1.5 :: real\<rfloor> = 750" by simp
  show ?thesis
    using C1_score_in_budget [OF h, where B = sampleBuiltins and e = sampleEnv and db = "[]"
      and r = "sampleBody ''Alice'' (JNum (Fin 100))" and k = 100] c s
    apply (elim exE conjE)
    apply simp
    done
qed

section \<open>Submission: timeTaken above the budget\<close>

lemma added_unchanged: "added db db = []"
  by (simp add: added_def)















section \<open>Submission: invalid timeTaken\<close>



lemma run1_alice_object:
  "submit1 sampleBuiltins sampleEnv [] (sampleBody ''Alice'' (JObject None)) =
     (\<lparr>status = 500, success = False,
       payload = ErrorOf (ValidationFailed [CastFailed ''timeTaken'', CastFailed ''score''])\<rparr>, [])"
  by (simp add: submit1_def save1_def validate1_def eval_defs score1_NaN)

text \<open>
  An object with an \<open>_id\<close> is cast through that property: variant 2 accepts
  \<open>timeTaken: { _id: 100 }\<close> and stores 100.
\<close>

lemma run2_alice_id_object:
  "submit2 sampleBuiltins sampleEnv [] (sampleBody ''Alice'' (JObject (Some (JNum (Fin 100))))) =
     (\<lparr>status = 201, success = True,
       payload = View \<lparr>c_id = 1, c_name = utf16 ''Alice'', c_department = utf16 ''Eng'',
                       c_timeTaken = Fin 100, c_score = Fin 750, c_createdAt = 1000\<rparr>\<rparr>,
      [stored 1 750 100])"
  by (simp add: submit2_def save2_def validate2_def eval_defs)




section \<open>Submission: stored name and department\<close>

lemma dropWhile_fixed: "xs = [] \<or> \<not> P (hd xs) \<Longrightarrow> dropWhile P xs = xs"
  by (cases xs) auto

lemma hd_dropWhile_rev:
  assumes "rev (dropWhile P (rev u)) \<noteq> []"
  shows "hd (rev (dropWhile P (rev u))) = hd u"
proof -
  have "rev u = takeWhile P (rev u) @ dropWhile P (rev u)" by simp
  then have "u = rev (dropWhile P (rev u)) @ rev (takeWhile P (rev u))"
    by (metis rev_append rev_rev_ident)
  with assms show ?thesis by (metis hd_append2)
qed

lemma js_trim_idem: "js_trim (js_trim s) = js_trim s"
proof -
  let ?u = "dropWhile js_whitespace s"
  let ?t = "rev (dropWhile js_whitespace (rev ?u))"
  have front: "dropWhile js_whitespace ?t = ?t"
  proof (rule dropWhile_fixed, cases "?t = []")
    case True
    then show "?t = [] \<or> \<not> js_whitespace (hd ?t)" by simp
  next
    case False
    then have h: "hd ?t = hd ?u" by (rule hd_dropWhile_rev)
    have "?u \<noteq> []"
    proof
      assume e: "?u = []"
      have "?t = []" unfolding e by simp
      with False show False by simp
    qed
    then have "\<not> js_whitespace (hd ?u)" by (rule hd_dropWhile)
    with h show "?t = [] \<or> \<not> js_whitespace (hd ?t)" by simp
  qed
  have "js_trim (js_trim s) = rev (dropWhile js_whitespace (rev (dropWhile js_whitespace ?t)))"
    by (simp add: js_trim_def)
  also have "\<dots> = rev (dropWhile js_whitespace (rev ?t))" by (simp only: front)
  also have "\<dots> = ?t" by (simp add: dropWhile_idem)
  finally show ?thesis by (simp add: js_trim_def)
qed

lemma trimSetter_Cast: "trimSetter c = Cast s \<Longrightarrow> js_trim s = s"
  by (cases c) (auto simp: trimSetter_def js_trim_idem)

lemma save2_wellFormed:
  assumes "save2 B e b = Inr p"
  shows "wellFormed p"
proof -
  note v = save2_Inr(1) [OF assms]
  from validate2_Nil(1) [OF v] obtain s where
    s: "trimSetter (castString B (b_name b)) = Cast s" "s \<noteq> []" "length s \<le> 50" by blast
  from validate2_Nil(2) [OF v] obtain d where
    d: "trimSetter (castString B (b_department b)) = Cast d" "d \<noteq> []" "length d \<le> 50" by blast
  from s trimSetter_Cast [OF s(1)] save2_Inr(3) [OF assms]
  have n: "bounded50 (name p)" by (simp add: bounded50_def castValue_def)
  from d trimSetter_Cast [OF d(1)] save2_Inr(4) [OF assms]
  have "bounded50 (department p)" by (simp add: bounded50_def castValue_def)
  with n show ?thesis by (simp add: wellFormed_def)
qed

lemma save1_nonEmpty:
  assumes "save1 B e b sc = Inr p"
  shows "nonEmptyNames p"
proof -
  note v = save1_Inr(1) [OF assms]
  from validate1_Nil(1) [OF v] validate1_Nil(2) [OF v] save1_Inr(3,4) [OF assms]
  show ?thesis by (auto simp: nonEmptyNames_def castValue_def)
qed

lemma wellFormed_nonEmpty: "wellFormed p \<Longrightarrow> nonEmptyNames p"
  by (simp add: wellFormed_def bounded50_def nonEmptyNames_def)

lemma submit2_added_wellFormed: "list_all wellFormed (added db (snd (submit2 B e db b)))"
proof (cases "success (fst (submit2 B e db b))")
  case True
  then obtain p where p: "save2 B e b = Inr p" and r: "snd (submit2 B e db b) = db @ [p]"
    by (rule submit2_success) simp
  from save2_wellFormed [OF p] r show ?thesis by (simp add: added_def)
next
  case False
  then show ?thesis by (simp add: submit2_failure added_unchanged)
qed

lemma submit1_added_nonEmpty: "list_all nonEmptyNames (added db (snd (submit1 B e db b)))"
proof (cases "success (fst (submit1 B e db b))")
  case True
  then obtain p where p: "save1 B e b (computeScore1 B (b_timeTaken b)) = Inr p"
    and r: "snd (submit1 B e db b) = db @ [p]"
    by (rule submit1_success) simp
  from save1_nonEmpty [OF p] r show ?thesis by (simp add: added_def)
next
  case False
  then show ?thesis by (simp add: submit1_failure added_unchanged)
qed

lemma submit2_keeps_wellFormed:
  assumes "list_all wellFormed db"
  shows "list_all wellFormed (snd (submit2 B e db b))"
proof (cases "success (fst (submit2 B e db b))")
  case True
  then obtain p where p: "save2 B e b = Inr p" and r: "snd (submit2 B e db b) = db @ [p]"
    by (rule submit2_success) simp
  from save2_wellFormed [OF p] r assms show ?thesis by simp
next
  case False
  with assms show ?thesis by (simp add: submit2_failure)
qed

lemma run1_padded:
  "submit1 sampleBuiltins sampleEnv [] (sampleBody '' Bob '' (JNum (Fin 100))) =
     (\<lparr>status = 201, success = True,
       payload = Doc ((stored 1 750 100)\<lparr>name := utf16 '' Bob ''\<rparr>)\<rparr>,
      [(stored 1 750 100)\<lparr>name := utf16 '' Bob ''\<rparr>])"
  by (simp add: submit1_def save1_def validate1_def eval_defs)

lemma run2_padded:
  "submit2 sampleBuiltins sampleEnv [] (sampleBody '' Bob '' (JNum (Fin 100))) =
     (\<lparr>status = 201, success = True,
       payload = View \<lparr>c_id = 1, c_name = utf16 ''Bob'', c_department = utf16 ''Eng'',
                       c_timeTaken = Fin 100, c_score = Fin 750, c_createdAt = 1000\<rparr>\<rparr>,
      [(stored 1 750 100)\<lparr>name := utf16 ''Bob''\<rparr>])"
  by (simp add: submit2_def save2_def validate2_def eval_defs)

text \<open>
  C6, as stated, fails on variant 1, whose schema declares neither \<open>trim\<close> nor
  \<open>maxlength\<close>: the name " Bob " is persisted with its surrounding spaces.
\<close>

theorem C6_names_counterexample:
  "snd (submit1 sampleBuiltins sampleEnv [] (sampleBody '' Bob '' (JNum (Fin 100))))
     = [(stored 1 750 100)\<lparr>name := utf16 '' Bob ''\<rparr>]
   \<and> js_trim (utf16 '' Bob '') = utf16 ''Bob''
   \<and> js_trim (utf16 '' Bob '') \<noteq> utf16 '' Bob ''
   \<and> \<not> wellFormed ((stored 1 750 100)\<lparr>name := utf16 '' Bob ''\<rparr>)"
proof -
  have a: "snd (submit1 sampleBuiltins sampleEnv [] (sampleBody '' Bob '' (JNum (Fin 100))))
     = [(stored 1 750 100)\<lparr>name := utf16 '' Bob ''\<rparr>]"
    by (simp add: run1_padded)
  have b: "js_trim (utf16 '' Bob '') = utf16 ''Bob''"
    by (simp add: utf16_def js_trim_def js_whitespace_def)
  have c: "utf16 ''Bob'' \<noteq> utf16 '' Bob ''"
    by (simp add: utf16_def)
  from b c have d: "\<not> wellFormed ((stored 1 750 100)\<lparr>name := utf16 '' Bob ''\<rparr>)"
    by (simp add: wellFormed_def bounded50_def)
  from a b c d show ?thesis by simp
qed

text \<open>
  C6, amended. Every record persisted by variant 2 has a name and a department that
  are non-empty, at most 50 code units long and trimmed, and a collection of such
  records stays one under any submission. Every record persisted by variant 1 has a
  non-empty name and department.
\<close>

theorem C6_names_bounded:
  "list_all wellFormed (added db (snd (submit2 B e db b)))
   \<and> (list_all wellFormed db \<longrightarrow> list_all wellFormed (snd (submit2 B e db b)))
   \<and> list_all nonEmptyNames (added db (snd (submit1 B e db b)))"
  using submit2_added_wellFormed [of db B e b] submit2_keeps_wellFormed [of db B e b]
    submit1_added_nonEmpty [of db B e b]
  by blast

theorem C6_names_bounded_witness:
  "list_all wellFormed []
   \<and> snd (submit2 sampleBuiltins sampleEnv [] (sampleBody '' Bob '' (JNum (Fin 100))))
       = [(stored 1 750 100)\<lparr>name := utf16 ''Bob''\<rparr>]
   \<and> list_all wellFormed (snd (submit2 sampleBuiltins sampleEnv [] (sampleBody '' Bob '' (JNum (Fin 100)))))
   \<and> wellFormed ((stored 1 750 100)\<lparr>name := utf16 ''Bob''\<rparr>)"
proof -
  have n: "list_all wellFormed []" by simp
  have r: "snd (submit2 sampleBuiltins sampleEnv [] (sampleBody '' Bob '' (JNum (Fin 100))))
       = [(stored 1 750 100)\<lparr>name := utf16 ''Bob''\<rparr>]"
    by (simp add: run2_padded)
  from n C6_names_bounded [where db = "[]" and B = sampleBuiltins and e = sampleEnv
      and b = "sampleBody '' Bob '' (JNum (Fin 100))"]
  show ?thesis unfolding r by simp
qed

end
